theory Spec2Isabelle
  imports Complex_Main
begin

section \<open>JavaScript values, strings and exceptions\<close>

text \<open>
  The two API routes (\<^verbatim>\<open>src/pages/api/extract.js\<close>, \<^verbatim>\<open>src/pages/api/summarize.js\<close>) and
  the page component (\<^verbatim>\<open>src/app/page.tsx\<close>) are embedded as pure functions. Everything
  outside the repository that the code talks to (the multipart parser, the file system,
  the image library, the generative model, the process environment, the network) is a
  field of an explicit world, and every call the code makes to it is written to a trace.

  A JavaScript string is represented by the bytes of its UTF-8 encoding (a no-break
  space is the two bytes C2 A0); \<open>valid_utf8\<close> says that a byte string is such a
  representation. \<open>trim\<close> removes every white space and line terminator code point of
  ECMAScript, each recognised by its encoding. \<open>toLowerCase\<close> is modelled on the ASCII
  letters, which hold every key and constant of the source, and leaves the bytes of
  other characters as they are.
\<close>

datatype jsval =
    JUndefined
  | JNull
  | JBool bool
  | JNum int
  | JStr string
  | JArr "jsval list"
  | JObj "(string \<times> jsval) list"
  | JFun string

text \<open>A thrown value: an \<open>Error\<close> with its message, or anything else (no \<open>message\<close>).\<close>

datatype thrown = Error string | NonError

text \<open>\<^verbatim>\<open>error.message ?? "Unexpected error"\<close>, as both handlers write it.\<close>

definition message_or_default :: "thrown \<Rightarrow> string" where
  "message_or_default e = (case e of Error m \<Rightarrow> m | NonError \<Rightarrow> ''Unexpected error'')"

text \<open>\<^verbatim>\<open>a ?? b\<close>: the right operand only when the left one is \<open>null\<close> or \<open>undefined\<close>.\<close>

definition nullish :: "jsval \<Rightarrow> bool" where
  "nullish v = (v = JUndefined \<or> v = JNull)"

definition coalesce :: "jsval \<Rightarrow> jsval \<Rightarrow> jsval" where
  "coalesce a b = (if nullish a then b else a)"

text \<open>
  The code points that \<open>String.prototype.trim\<close> removes: the ECMAScript white space
  (tab, vertical tab, form feed, the byte order mark U+FEFF and the space separators
  U+0020, U+00A0, U+1680, U+2000 to U+200A, U+202F, U+205F, U+3000) and the line
  terminators (line feed, carriage return, U+2028, U+2029).
\<close>

definition js_space_code_points :: "nat list" where
  "js_space_code_points =
     [0x0009, 0x000A, 0x000B, 0x000C, 0x000D, 0x0020, 0x00A0, 0x1680,
      0x2000, 0x2001, 0x2002, 0x2003, 0x2004, 0x2005, 0x2006, 0x2007, 0x2008, 0x2009, 0x200A,
      0x2028, 0x2029, 0x202F, 0x205F, 0x3000, 0xFEFF]"

text \<open>The UTF-8 encodings of these code points, in the same order.\<close>

definition js_spaces :: "string list" where
  "js_spaces =
     [[CHR 0x09], [CHR 0x0A], [CHR 0x0B], [CHR 0x0C], [CHR 0x0D], [CHR 0x20],
      [CHR 0xC2, CHR 0xA0], [CHR 0xE1, CHR 0x9A, CHR 0x80],
      [CHR 0xE2, CHR 0x80, CHR 0x80], [CHR 0xE2, CHR 0x80, CHR 0x81],
      [CHR 0xE2, CHR 0x80, CHR 0x82], [CHR 0xE2, CHR 0x80, CHR 0x83],
      [CHR 0xE2, CHR 0x80, CHR 0x84], [CHR 0xE2, CHR 0x80, CHR 0x85],
      [CHR 0xE2, CHR 0x80, CHR 0x86], [CHR 0xE2, CHR 0x80, CHR 0x87],
      [CHR 0xE2, CHR 0x80, CHR 0x88], [CHR 0xE2, CHR 0x80, CHR 0x89],
      [CHR 0xE2, CHR 0x80, CHR 0x8A], [CHR 0xE2, CHR 0x80, CHR 0xA8],
      [CHR 0xE2, CHR 0x80, CHR 0xA9], [CHR 0xE2, CHR 0x80, CHR 0xAF],
      [CHR 0xE2, CHR 0x81, CHR 0x9F], [CHR 0xE3, CHR 0x80, CHR 0x80],
      [CHR 0xEF, CHR 0xBB, CHR 0xBF]]"

text \<open>The code point that one, two or three bytes of UTF-8 encode.\<close>

fun code_point :: "string \<Rightarrow> nat" where
  "code_point [a] = of_char a"
| "code_point [a, b] = (of_char a - 0xC0) * 64 + (of_char b - 0x80)"
| "code_point [a, b, c] =
     (of_char a - 0xE0) * 4096 + (of_char b - 0x80) * 64 + (of_char c - 0x80)"
| "code_point s = 0"

text \<open>The rest of \<open>s\<close> after one of the byte sequences \<open>ws\<close> at its start, if there is one.\<close>

fun strip_one :: "string list \<Rightarrow> string \<Rightarrow> string option" where
  "strip_one [] s = None"
| "strip_one (w # ws) s =
     (if w \<noteq> [] \<and> take (length w) s = w then Some (drop (length w) s) else strip_one ws s)"

function strip_leading :: "string list \<Rightarrow> string \<Rightarrow> string" where
  "strip_leading ws s = (case strip_one ws s of Some r \<Rightarrow> strip_leading ws r | None \<Rightarrow> s)"
  by pat_completeness auto
termination
proof (relation "measure (\<lambda>(ws, s). length s)")
  show "wf (measure (\<lambda>(ws, s). length s))" by simp
next
  fix ws :: "string list" and s r :: string
  assume "strip_one ws s = Some r"
  then have "length r < length s"
  proof (induction ws)
    case Nil
    then show ?case by simp
  next
    case (Cons w ws)
    show ?case
    proof (cases "w \<noteq> [] \<and> take (length w) s = w")
      case True
      then have "s \<noteq> []" by auto
      with True Cons.prems show ?thesis by auto
    next
      case False
      with Cons show ?thesis by auto
    qed
  qed
  then show "((ws, r), (ws, s)) \<in> measure (\<lambda>(ws, s). length s)" by simp
qed

declare strip_leading.simps [simp del]

text \<open>
  \<open>String.prototype.trim\<close>: the white space at the start is removed, then the white
  space at the end (read from the end, each encoding is reversed).
\<close>

definition trim :: "string \<Rightarrow> string" where
  "trim s = rev (strip_leading (map rev js_spaces) (rev (strip_leading js_spaces s)))"

text \<open>
  Well-formed UTF-8: a byte below 80 alone, or a lead byte with its one, two or three
  continuation bytes (no overlong form, no surrogate, nothing above U+10FFFF).
\<close>

definition continuation :: "char \<Rightarrow> nat \<Rightarrow> nat \<Rightarrow> bool" where
  "continuation c lo hi = (lo \<le> of_char c \<and> (of_char c :: nat) \<le> hi)"

fun valid_utf8 :: "string \<Rightarrow> bool" where
  "valid_utf8 [] = True"
| "valid_utf8 [a] = ((of_char a :: nat) < 0x80)"
| "valid_utf8 [a, b] =
     (if (of_char a :: nat) < 0x80 then valid_utf8 [b]
      else continuation a 0xC2 0xDF \<and> continuation b 0x80 0xBF)"
| "valid_utf8 [a, b, c] =
     (if (of_char a :: nat) < 0x80 then valid_utf8 [b, c]
      else if continuation a 0xC2 0xDF then continuation b 0x80 0xBF \<and> valid_utf8 [c]
      else continuation a 0xE0 0xEF
           \<and> continuation b (if of_char a = (0xE0 :: nat) then 0xA0 else 0x80)
                              (if of_char a = (0xED :: nat) then 0x9F else 0xBF)
           \<and> continuation c 0x80 0xBF)"
| "valid_utf8 (a # b # c # d # s) =
     (if (of_char a :: nat) < 0x80 then valid_utf8 (b # c # d # s)
      else if continuation a 0xC2 0xDF then continuation b 0x80 0xBF \<and> valid_utf8 (c # d # s)
      else if continuation a 0xE0 0xEF then
        continuation b (if of_char a = (0xE0 :: nat) then 0xA0 else 0x80)
                       (if of_char a = (0xED :: nat) then 0x9F else 0xBF)
        \<and> continuation c 0x80 0xBF \<and> valid_utf8 (d # s)
      else continuation a 0xF0 0xF4
           \<and> continuation b (if of_char a = (0xF0 :: nat) then 0x90 else 0x80)
                              (if of_char a = (0xF4 :: nat) then 0x8F else 0xBF)
           \<and> continuation c 0x80 0xBF \<and> continuation d 0x80 0xBF \<and> valid_utf8 s)"

definition lower_char :: "char \<Rightarrow> char" where
  "lower_char c =
     (case map_of (zip ''ABCDEFGHIJKLMNOPQRSTUVWXYZ'' ''abcdefghijklmnopqrstuvwxyz'') c of
        Some l \<Rightarrow> l
      | None \<Rightarrow> c)"

definition toLowerCase :: "string \<Rightarrow> string" where
  "toLowerCase s = map lower_char s"

text \<open>
  An object literal inherits from \<open>Object.prototype\<close>: a property read that finds no own
  property goes on to the prototype, whose members are functions (and the \<open>__proto__\<close>
  accessor, which yields the prototype object itself).
\<close>

definition Object_prototype_functions :: "string list" where
  "Object_prototype_functions =
     [''constructor'', ''__defineGetter__'', ''__defineSetter__'', ''hasOwnProperty'',
      ''__lookupGetter__'', ''__lookupSetter__'', ''isPrototypeOf'', ''propertyIsEnumerable'',
      ''toString'', ''valueOf'', ''toLocaleString'']"

definition Object_prototype :: "(string \<times> jsval) list" where
  "Object_prototype =
     map (\<lambda>n. (n, JFun n)) Object_prototype_functions
     @ [(''__proto__'', JObj (map (\<lambda>n. (n, JFun n)) Object_prototype_functions))]"

definition inherited_names :: "string list" where
  "inherited_names = map fst Object_prototype"

text \<open>\<^verbatim>\<open>obj[key]\<close> on an object literal with the own properties \<open>own\<close>.\<close>

definition get_member :: "(string \<times> jsval) list \<Rightarrow> string \<Rightarrow> jsval" where
  "get_member own k =
     (case map_of own k of
        Some v \<Rightarrow> v
      | None \<Rightarrow> (case map_of Object_prototype k of Some v \<Rightarrow> v | None \<Rightarrow> JUndefined))"

text \<open>
  \<^verbatim>\<open>value.text\<close> and \<^verbatim>\<open>value.mode\<close> on the parsed request body: an object answers with
  \<open>get_member\<close>; strings, numbers, booleans, arrays and functions have no property of
  either name. The body is never \<open>null\<close> or \<open>undefined\<close> here (\<^verbatim>\<open>req.body ?? {}\<close>).
\<close>

definition get_body_member :: "jsval \<Rightarrow> string \<Rightarrow> jsval" where
  "get_body_member b k = (case b of JObj own \<Rightarrow> get_member own k | _ \<Rightarrow> JUndefined)"

section \<open>The world outside the handlers\<close>

type_synonym buffer = "nat list"

text \<open>One request to the generative model: \<^verbatim>\<open>model.generateContent({contents: [...]})\<close>.\<close>

datatype encoded = Base64 buffer

datatype part =
    TextPart jsval
  | InlineData encoded string

record gemini_request =
  api_key :: string
  model_name :: string
  role :: string
  parts :: "part list"

text \<open>
  What \<^verbatim>\<open>generateContent\<close> gives back: it rejects, or resolves to a result whose
  \<open>response\<close> may be missing; \<^verbatim>\<open>response.text()\<close> may itself throw.
\<close>

type_synonym gemini_result = "thrown + (thrown + string) option"

datatype sharp_op = Grayscale | Normalize | Png

record sharp_pipeline =
  input :: buffer
  ops :: "sharp_op list"

datatype event =
    FormParse
  | ReadFile string
  | SharpToBuffer sharp_pipeline
  | GenerateContent gemini_request
  | Unlink string
  | ConsoleError string thrown
  | ConsoleWarn string thrown

text \<open>
  The upload as the multipart parser hands it over: a file written to the upload
  directory, under a form field that holds one file or an array of them.
\<close>

record uploaded_file =
  filepath :: string

datatype file_field = OneFile uploaded_file | FileArray "uploaded_file list"

type_synonym files = "(string \<times> file_field) list"

type_synonym fields = "(string \<times> jsval) list"

record formidable_options =
  multiples :: bool
  keepExtensions :: bool
  maxFileSize :: nat

record request =
  http_method :: string

text \<open>The multipart request, with the number of bytes of file data it carries.\<close>

record multipart_request = request +
  upload_bytes :: nat

text \<open>
  \<open>form_parse\<close> is what \<^verbatim>\<open>form.parse(req, callback)\<close> of the formidable library hands to
  the callback under the given options: an error, or the fields
  and files (in the order of \<^verbatim>\<open>Object.keys\<close>). \<open>unlink_failure\<close> names the paths whose
  removal the operating system refuses, and with which error.
\<close>

record world =
  env :: "string \<Rightarrow> string option"
  form_parse :: "formidable_options \<Rightarrow> multipart_request \<Rightarrow> thrown + (fields \<times> files)"
  disk :: "string \<Rightarrow> buffer option"
  unlink_failure :: "string \<Rightarrow> thrown option"
  sharp_run :: "sharp_pipeline \<Rightarrow> thrown + buffer"
  gemini :: "gemini_request \<Rightarrow> gemini_result"

datatype json_body = ErrorJson string | TextJson string

record response =
  status :: nat
  headers :: "(string \<times> string) list"
  body :: json_body

record outcome =
  sent :: response
  trace :: "event list"
  disk_after :: "string \<Rightarrow> buffer option"

definition respond :: "nat \<Rightarrow> json_body \<Rightarrow> response" where
  "respond code b = \<lparr>status = code, headers = [], body = b\<rparr>"

text \<open>
  The first lines of both handlers:
  \<^verbatim>\<open>res.setHeader("Allow", "POST"); res.status(405).json({ error: "Method Not Allowed" })\<close>.
\<close>

definition method_not_allowed :: response where
  "method_not_allowed =
     \<lparr>status = 405, headers = [(''Allow'', ''POST'')], body = ErrorJson ''Method Not Allowed''\<rparr>"

text \<open>
  \<^verbatim>\<open>process.env.GEMINI_API_KEY ?? process.env.NEXT_PUBLIC_GEMINI_API_KEY ?? ""\<close>
  (the same function in both routes). An environment variable is a string or absent.
\<close>

definition getGeminiApiKey :: "(string \<Rightarrow> string option) \<Rightarrow> string" where
  "getGeminiApiKey e =
     (case e ''GEMINI_API_KEY'' of
        Some k \<Rightarrow> k
      | None \<Rightarrow> (case e ''NEXT_PUBLIC_GEMINI_API_KEY'' of Some k \<Rightarrow> k | None \<Rightarrow> ''''))"

text \<open>
  The tail both model calls share: \<^verbatim>\<open>const { response } = result\<close>, the two checks, and
  \<^verbatim>\<open>text.trim()\<close>.
\<close>

definition read_gemini_result :: "gemini_result \<Rightarrow> thrown + string" where
  "read_gemini_result r =
     (case r of
        Inl e \<Rightarrow> Inl e
      | Inr None \<Rightarrow> Inl (Error ''No response received from Gemini'')
      | Inr (Some (Inl e)) \<Rightarrow> Inl e
      | Inr (Some (Inr t)) \<Rightarrow>
          if t = [] then Inl (Error ''Gemini returned an empty response'') else Inr (trim t))"

section \<open>The transform route: summarize.js\<close>

definition ALLOWED_MODES :: "jsval list" where
  "ALLOWED_MODES = [JStr ''summarize'', JStr ''rewrite'']"

definition summarize_prompt :: string where
  "summarize_prompt =
     ''Provide a concise summary of the following handwritten transcription. Return clear paragraphs.''"

definition rewrite_prompt :: string where
  "rewrite_prompt =
     ''Rewrite the following handwritten transcription into polished, easy-to-read prose while preserving meaning.''"

text \<open>The two messages end with a single quote, written as its character code.\<close>

definition missing_text_message :: string where
  "missing_text_message = ''Request must include non-empty 'text'' @ [CHR 0x27]"

definition invalid_mode_message :: string where
  "invalid_mode_message = ''Mode must be either 'summarize' or 'rewrite'' @ [CHR 0x27]"

definition processTextWithGemini ::
  "world \<Rightarrow> string \<Rightarrow> jsval \<Rightarrow> (thrown + string) \<times> event list" where
  "processTextWithGemini w txt mode =
     (let apiKey = getGeminiApiKey (env w) in
      if apiKey = [] then (Inl (Error ''Missing GEMINI_API_KEY environment variable''), [])
      else
        let systemPrompt = (if mode = JStr ''summarize'' then summarize_prompt else rewrite_prompt);
            request = \<lparr>api_key = apiKey, model_name = ''gemini-2.5-flash'', role = ''user'',
                        parts = [TextPart (JStr (systemPrompt @ [CHR 0x0A, CHR 0x0A] @ ''---''
                                                  @ [CHR 0x0A, CHR 0x0A] @ txt))]\<rparr>
        in (read_gemini_result (gemini w request), [GenerateContent request]))"

record json_request = request +
  json :: jsval

text \<open>\<^verbatim>\<open>const { text, mode } = req.body ?? {}\<close>\<close>

definition destructure_body :: "jsval \<Rightarrow> jsval \<times> jsval" where
  "destructure_body b =
     (let obj = coalesce b (JObj []) in (get_body_member obj ''text'', get_body_member obj ''mode''))"

text \<open>The body of the \<open>try\<close> block: the response it sets, or what it throws.\<close>

definition summarize_try :: "world \<Rightarrow> json_request \<Rightarrow> (thrown + response) \<times> event list" where
  "summarize_try w req =
     (case destructure_body (json req) of
        (txt, mode) \<Rightarrow>
         (case txt of
           JStr t \<Rightarrow>
             if trim t = [] then
               (Inr (respond 400 (ErrorJson missing_text_message)), [])
             else if mode \<notin> set ALLOWED_MODES then
               (Inr (respond 400 (ErrorJson invalid_mode_message)), [])
             else
               (case processTextWithGemini w t mode of
                  (Inl e, tr) \<Rightarrow> (Inl e, tr)
                | (Inr processedText, tr) \<Rightarrow> (Inr (respond 200 (TextJson processedText)), tr))
         | _ \<Rightarrow> (Inr (respond 400 (ErrorJson missing_text_message)), [])))"

definition summarize_handler :: "world \<Rightarrow> json_request \<Rightarrow> outcome" where
  "summarize_handler w req =
     (if http_method req \<noteq> ''POST'' then
        \<lparr>sent = method_not_allowed, trace = [], disk_after = disk w\<rparr>
      else
        (case summarize_try w req of
           (Inr r, tr) \<Rightarrow> \<lparr>sent = r, trace = tr, disk_after = disk w\<rparr>
         | (Inl e, tr) \<Rightarrow>
             \<lparr>sent = respond 500 (ErrorJson (message_or_default e)),
              trace = tr @ [ConsoleError ''/api/summarize error'' e],
              disk_after = disk w\<rparr>))"

section \<open>The extraction route: extract.js\<close>

definition FORM_FILE_FIELDS :: "string list" where
  "FORM_FILE_FIELDS = [''file'', ''image'', ''document'']"

text \<open>
  \<open>None\<close> is \<open>undefined\<close>: the field is missing, or it is an empty array (whose element 0
  is \<open>undefined\<close>).
\<close>

definition normalizeFormFile :: "file_field option \<Rightarrow> uploaded_file option" where
  "normalizeFormFile fileField =
     (case fileField of
        None \<Rightarrow> None
      | Some (FileArray xs) \<Rightarrow> (case xs of [] \<Rightarrow> None | x # _ \<Rightarrow> Some x)
      | Some (OneFile f) \<Rightarrow> Some f)"

text \<open>The options \<open>parseMultipartRequest\<close> builds the parser with.\<close>

definition formidable_config :: formidable_options where
  "formidable_config =
     \<lparr>multiples = False, keepExtensions = False, maxFileSize = 25 * 1024 * 1024\<rparr>"

definition parseMultipartRequest ::
  "world \<Rightarrow> multipart_request \<Rightarrow> thrown + (fields \<times> files)" where
  "parseMultipartRequest w req = form_parse w formidable_config req"

definition sharp :: "buffer \<Rightarrow> sharp_pipeline" where
  "sharp b = \<lparr>input = b, ops = []\<rparr>"

definition grayscale :: "sharp_pipeline \<Rightarrow> sharp_pipeline" where
  "grayscale p = p\<lparr>ops := ops p @ [Grayscale]\<rparr>"

definition normalize_op :: "sharp_pipeline \<Rightarrow> sharp_pipeline" where
  "normalize_op p = p\<lparr>ops := ops p @ [Normalize]\<rparr>"

definition png :: "sharp_pipeline \<Rightarrow> sharp_pipeline" where
  "png p = p\<lparr>ops := ops p @ [Png]\<rparr>"

text \<open>\<^verbatim>\<open>sharp(buffer).grayscale().normalize().png().toBuffer()\<close>\<close>

definition cleanImage :: "world \<Rightarrow> buffer \<Rightarrow> (thrown + buffer) \<times> event list" where
  "cleanImage w b =
     (let pipeline = png (normalize_op (grayscale (sharp b)))
      in (sharp_run w pipeline, [SharpToBuffer pipeline]))"

definition auto_prompt :: string where
  "auto_prompt =
     ''Extract the handwritten text from this document. Detect the language automatically and respond only with the transcribed text.''"

definition en_prompt :: string where
  "en_prompt =
     ''Extract and transcribe the handwritten text in English. Respond with the best English transcription.''"

definition hi_prompt :: string where
  "hi_prompt = ''Extract and transcribe the handwritten text in Hindi using Devanagari script.''"

definition mr_prompt :: string where
  "mr_prompt = ''Extract and transcribe the handwritten text in Marathi using Devanagari script.''"

definition es_prompt :: string where
  "es_prompt = ''Extract and transcribe the handwritten text in Spanish. Respond in Spanish.''"

definition LANGUAGE_PROMPTS :: "(string \<times> jsval) list" where
  "LANGUAGE_PROMPTS =
     [(''auto'', JStr auto_prompt),
      (''en'', JStr en_prompt),
      (''hi'', JStr hi_prompt),
      (''mr'', JStr mr_prompt),
      (''es'', JStr es_prompt)]"

text \<open>\<^verbatim>\<open>LANGUAGE_PROMPTS[language] ?? LANGUAGE_PROMPTS.auto\<close>\<close>

definition resolve_prompt :: "string \<Rightarrow> jsval" where
  "resolve_prompt language =
     coalesce (get_member LANGUAGE_PROMPTS language) (get_member LANGUAGE_PROMPTS ''auto'')"

definition extractTextFromImage ::
  "world \<Rightarrow> buffer \<Rightarrow> string \<Rightarrow> (thrown + string) \<times> event list" where
  "extractTextFromImage w imageBuffer language =
     (let apiKey = getGeminiApiKey (env w) in
      if apiKey = [] then (Inl (Error ''Missing GEMINI_API_KEY environment variable''), [])
      else
        let base64Image = Base64 imageBuffer;
            prompt = resolve_prompt language;
            request = \<lparr>api_key = apiKey, model_name = ''gemini-2.5-flash'', role = ''user'',
                        parts = [TextPart prompt, InlineData base64Image ''image/png'']\<rparr>
        in (read_gemini_result (gemini w request), [GenerateContent request]))"

text \<open>
  The \<open>for\<close> loop over \<open>FORM_FILE_FIELDS\<close>: the first name that \<open>files\<close> has decides, and
  the loop breaks there.
\<close>

fun first_named_file :: "string list \<Rightarrow> files \<Rightarrow> uploaded_file option" where
  "first_named_file [] fs = None"
| "first_named_file (field # others) fs =
     (case map_of fs field of
        Some v \<Rightarrow> normalizeFormFile (Some v)
      | None \<Rightarrow> first_named_file others fs)"

text \<open>\<^verbatim>\<open>uploadedFile?.filepath\<close> as a condition: a file with a non-empty path.\<close>

definition has_filepath :: "uploaded_file option \<Rightarrow> bool" where
  "has_filepath u = (case u of None \<Rightarrow> False | Some f \<Rightarrow> filepath f \<noteq> [])"

text \<open>
  The loop, then the fall back to the first file of the form:
  \<^verbatim>\<open>files[Object.keys(files)[0]]\<close>, which is \<open>undefined\<close> when the form has no file.
\<close>

definition select_uploaded_file :: "files \<Rightarrow> uploaded_file option" where
  "select_uploaded_file fs =
     (let uploadedFile = first_named_file FORM_FILE_FIELDS fs in
      if \<not> has_filepath uploadedFile then
        (case fs of
           [] \<Rightarrow> normalizeFormFile None
         | (firstFileKey, _) # _ \<Rightarrow> normalizeFormFile (map_of fs firstFileKey))
      else uploadedFile)"

text \<open>
  \<^verbatim>\<open>Array.isArray(languageField) ? languageField[0] : languageField\<close>, then
  \<^verbatim>\<open>typeof languageValue === "string" ? languageValue.toLowerCase() : "auto"\<close>.
\<close>

definition resolve_language :: "jsval \<Rightarrow> string" where
  "resolve_language languageField =
     (let languageValue =
            (case languageField of
               JArr xs \<Rightarrow> (case xs of [] \<Rightarrow> JUndefined | x # _ \<Rightarrow> x)
             | v \<Rightarrow> v)
      in case languageValue of JStr s \<Rightarrow> toLowerCase s | _ \<Rightarrow> ''auto'')"

definition readFile :: "(string \<Rightarrow> buffer option) \<Rightarrow> string \<Rightarrow> thrown + buffer" where
  "readFile d p =
     (case d p of None \<Rightarrow> Inl (Error ''ENOENT: no such file or directory'') | Some b \<Rightarrow> Inr b)"

definition unlink :: "world \<Rightarrow> string \<Rightarrow> thrown + (string \<Rightarrow> buffer option)" where
  "unlink w p =
     (if disk w p = None then Inl (Error ''ENOENT: no such file or directory'')
      else (case unlink_failure w p of Some e \<Rightarrow> Inl e | None \<Rightarrow> Inr ((disk w)(p := None))))"

text \<open>
  The \<open>try\<close> block: the value of \<open>uploadedFile\<close> when the block is left, the response it
  sets or what it throws, and the calls it made.
\<close>

definition extract_try ::
  "world \<Rightarrow> multipart_request \<Rightarrow> uploaded_file option \<times> (thrown + response) \<times> event list" where
  "extract_try w req =
     (case parseMultipartRequest w req of
        Inl e \<Rightarrow> (None, Inl e, [FormParse])
      | Inr (flds, fs) \<Rightarrow>
          let uploadedFile = select_uploaded_file fs in
          if \<not> has_filepath uploadedFile then
            (uploadedFile, Inr (respond 400 (ErrorJson ''No image file uploaded'')), [FormParse])
          else
            let p = (case uploadedFile of Some f \<Rightarrow> filepath f | None \<Rightarrow> []) in
            (case readFile (disk w) p of
               Inl e \<Rightarrow> (uploadedFile, Inl e, [FormParse, ReadFile p])
             | Inr originalBuffer \<Rightarrow>
                 (case cleanImage w originalBuffer of
                    (Inl e, tr1) \<Rightarrow> (uploadedFile, Inl e, [FormParse, ReadFile p] @ tr1)
                  | (Inr cleanedBuffer, tr1) \<Rightarrow>
                      let languageField = get_member flds ''language'';
                          language = resolve_language languageField
                      in (case extractTextFromImage w cleanedBuffer language of
                            (Inl e, tr2) \<Rightarrow>
                              (uploadedFile, Inl e, [FormParse, ReadFile p] @ tr1 @ tr2)
                          | (Inr t, tr2) \<Rightarrow>
                              (uploadedFile, Inr (respond 200 (TextJson t)),
                               [FormParse, ReadFile p] @ tr1 @ tr2)))))"

text \<open>The \<open>finally\<close> block: the disk it leaves, and the calls it made.\<close>

definition extract_finally ::
  "world \<Rightarrow> uploaded_file option \<Rightarrow> (string \<Rightarrow> buffer option) \<times> event list" where
  "extract_finally w uploadedFile =
     (case uploadedFile of
        None \<Rightarrow> (disk w, [])
      | Some f \<Rightarrow>
          if filepath f = [] then (disk w, [])
          else
            (case unlink w (filepath f) of
               Inr d \<Rightarrow> (d, [Unlink (filepath f)])
             | Inl unlinkError \<Rightarrow>
                 (disk w, [Unlink (filepath f), ConsoleWarn ''Failed to remove temp file'' unlinkError])))"

definition extract_handler :: "world \<Rightarrow> multipart_request \<Rightarrow> outcome" where
  "extract_handler w req =
     (if http_method req \<noteq> ''POST'' then
        \<lparr>sent = method_not_allowed, trace = [], disk_after = disk w\<rparr>
      else
        (case extract_try w req of
           (uploadedFile, r, tr) \<Rightarrow>
             (case extract_finally w uploadedFile of
                (d, tr_finally) \<Rightarrow>
                  (case r of
                     Inr res \<Rightarrow> \<lparr>sent = res, trace = tr @ tr_finally, disk_after = d\<rparr>
                   | Inl e \<Rightarrow>
                       \<lparr>sent = respond 500 (ErrorJson (message_or_default e)),
                        trace = tr @ [ConsoleError ''/api/extract error'' e] @ tr_finally,
                        disk_after = d\<rparr>))))"

section \<open>The page: page.tsx\<close>

text \<open>
  The component's state, one field for each \<open>useState\<close>. The selected \<open>File\<close> is
  represented by its name.
\<close>

record page_state =
  selectedFile :: "string option"
  extractedText :: string
  isLoading :: bool
  error :: string
  previewUrl :: "string option"
  processedText :: string
  isProcessingText :: bool
  processingMode :: "string option"
  language :: string

text \<open>The JSON of a response, at the type the page casts it to.\<close>

record payload =
  payload_text :: "string option"
  payload_error :: "string option"

text \<open>
  What \<^verbatim>\<open>await fetch(...)\<close> ends in: it rejects, or it resolves to a response with its
  \<open>ok\<close> flag and what \<^verbatim>\<open>response.json()\<close> resolves to or rejects with.
\<close>

datatype fetch_outcome =
    FetchRejected thrown
  | FetchResponse bool "thrown + payload"

text \<open>\<^verbatim>\<open>err instanceof Error ? err.message : fallback\<close>\<close>

definition message_of :: "thrown \<Rightarrow> string \<Rightarrow> string" where
  "message_of err fallback = (case err of Error m \<Rightarrow> m | NonError \<Rightarrow> fallback)"

text \<open>\<^verbatim>\<open>payload.error || fallback\<close>: the fallback for a missing or an empty message.\<close>

definition error_or :: "string option \<Rightarrow> string \<Rightarrow> string" where
  "error_or e fallback = (case e of None \<Rightarrow> fallback | Some m \<Rightarrow> if m = [] then fallback else m)"

text \<open>The \<open>try\<close> block of \<open>handleExtract\<close> after the request: the data, or what is thrown.\<close>

definition extract_response :: "fetch_outcome \<Rightarrow> thrown + payload" where
  "extract_response r =
     (case r of
        FetchRejected e \<Rightarrow> Inl e
      | FetchResponse ok js \<Rightarrow>
          if \<not> ok then
            (let p = (case js of Inl _ \<Rightarrow> \<lparr>payload_text = None, payload_error = None\<rparr> | Inr q \<Rightarrow> q)
             in Inl (Error (error_or (payload_error p) ''Failed to extract text.'')))
          else js)"

definition handleExtract :: "page_state \<Rightarrow> fetch_outcome \<Rightarrow> page_state" where
  "handleExtract st r =
     (case selectedFile st of
        None \<Rightarrow> st\<lparr>error := ''Please select an image before extracting.''\<rparr>
      | Some file \<Rightarrow>
          let st1 = st\<lparr>isLoading := True, error := []\<rparr>;
              st2 =
                (case extract_response r of
                   Inr data \<Rightarrow>
                     st1\<lparr>extractedText := (case payload_text data of Some t \<Rightarrow> t | None \<Rightarrow> []),
                         processedText := []\<rparr>
                 | Inl err \<Rightarrow>
                     st1\<lparr>error := message_of err ''Unexpected error during extraction.''\<rparr>)
          in st2\<lparr>isLoading := False\<rparr>)"

subsection \<open>The document export\<close>

text \<open>
  Lengths are points. The source computes in double precision; the model computes the
  same expressions in exact rational arithmetic. The page height comes from the
  document library (841.89 for A4) and \<open>splitTextToSize\<close> from its font metrics: both
  are parameters.
\<close>

definition margin_left :: rat where "margin_left = 64"
definition margin_right :: rat where "margin_right = 64"
















section \<open>Example worlds and requests\<close>

text \<open>
  A multipart parser that enforces its size limit and otherwise finds one file under
  \<open>file\<close> and the language field \<open>HI\<close>, as an array.
\<close>

definition example_parse ::
  "formidable_options \<Rightarrow> multipart_request \<Rightarrow> thrown + (fields \<times> files)" where
  "example_parse opts req =
     (if maxFileSize opts < upload_bytes req then Inl (Error ''options.maxFileSize exceeded'')
      else Inr ([(''language'', JArr [JStr ''HI''])],
                [(''file'', FileArray [\<lparr>filepath = ''/tmp/upload_1''\<rparr>])]))"

definition example_world :: world where
  "example_world =
     \<lparr>env = [''GEMINI_API_KEY'' \<mapsto> ''key''],
      form_parse = example_parse,
      disk = [''/tmp/upload_1'' \<mapsto> [7, 8, 9]],
      unlink_failure = (\<lambda>p. None),
      sharp_run = (\<lambda>p. Inr (rev (input p))),
      gemini = (\<lambda>r. Inr (Some (Inr '' namaste '')))\<rparr>"

definition example_upload :: multipart_request where
  "example_upload = \<lparr>http_method = ''POST'', upload_bytes = 3\<rparr>"

definition example_large_upload :: multipart_request where
  "example_large_upload = \<lparr>http_method = ''POST'', upload_bytes = 26214401\<rparr>"

definition example_get :: multipart_request where
  "example_get = \<lparr>http_method = ''GET'', upload_bytes = 0\<rparr>"

definition example_transform :: json_request where
  "example_transform =
     \<lparr>http_method = ''POST'',
      json = JObj [(''text'', JStr ''long passage''), (''mode'', JStr ''rewrite'')]\<rparr>"

definition example_bad_mode :: json_request where
  "example_bad_mode =
     \<lparr>http_method = ''POST'',
      json = JObj [(''text'', JStr ''long passage''), (''mode'', JStr ''translate'')]\<rparr>"

definition example_json_get :: json_request where
  "example_json_get = \<lparr>http_method = ''GET'', json = JUndefined\<rparr>"

text \<open>The same world with no credential, and with a disk that refuses the removal.\<close>

definition world_without_key :: world where
  "world_without_key = example_world\<lparr>env := Map.empty\<rparr>"

definition world_unlink_refused :: world where
  "world_unlink_refused =
     example_world\<lparr>unlink_failure := (\<lambda>p. Some (Error ''EPERM: operation not permitted''))\<rparr>"

text \<open>A page that shows an earlier transcription and its summary, with a file selected.\<close>

definition example_page :: page_state where
  "example_page =
     \<lparr>selectedFile = Some ''note.jpg'', extractedText = ''old text'', isLoading = False,
      error = [], previewUrl = Some ''blob:1'', processedText = ''old summary'',
      isProcessingText = False, processingMode = None, language = ''auto''\<rparr>"







text \<open>
  An image library whose three stages are told apart by what they do to the bytes, so
  that leaving a stage out or changing the order changes the result.
\<close>

definition apply_stage :: "sharp_op \<Rightarrow> buffer \<Rightarrow> buffer" where
  "apply_stage stage b =
     (case stage of
        Grayscale \<Rightarrow> map (\<lambda>x. x div 2) b
      | Normalize \<Rightarrow> map (\<lambda>x. x + 100) b
      | Png \<Rightarrow> [137, 80, 78, 71] @ b)"

definition staged_sharp :: "sharp_pipeline \<Rightarrow> thrown + buffer" where
  "staged_sharp p = Inr (foldl (\<lambda>b stage. apply_stage stage b) (input p) (ops p))"

definition staged_world :: world where
  "staged_world = example_world\<lparr>sharp_run := staged_sharp\<rparr>"

text \<open>A request with two files, under \<open>file\<close> and under \<open>image\<close>, both on the disk.\<close>

definition two_file_world :: world where
  "two_file_world =
     example_world
       \<lparr>form_parse :=
          (\<lambda>opts req. Inr ([], [(''file'', OneFile \<lparr>filepath = ''/tmp/upload_1''\<rparr>),
                                 (''image'', OneFile \<lparr>filepath = ''/tmp/upload_2''\<rparr>)])),
        disk := [''/tmp/upload_1'' \<mapsto> [7, 8, 9], ''/tmp/upload_2'' \<mapsto> [4, 5, 6]]\<rparr>"

section \<open>Properties\<close>

lemma js_spaces_code_points: "map code_point js_spaces = js_space_code_points"
  by (simp add: js_spaces_def js_space_code_points_def)

lemma strip_one_Nil: "strip_one ws [] = None"
  by (induction ws) auto

lemma trim_empty: "trim [] = []"
  by (simp add: trim_def strip_leading.simps [of _ "[]"] strip_one_Nil)

lemma trim_examples:
  "trim '' namaste '' = ''namaste''" "trim ''long passage'' = ''long passage''"
  "trim [CHR 0xC2, CHR 0xA0] = []"
  by code_simp+

subsection \<open>Requests that are not POST\<close>

text \<open>
  Claim C5. A request to either endpoint whose method is not POST is answered with
  status 405 and the header \<open>Allow: POST\<close>; the handler parses no body, validates
  nothing, calls nothing outside (its trace is empty) and leaves the disk as it was.
\<close>

theorem non_post_is_method_not_allowed:
  assumes "http_method req \<noteq> ''POST''" and "http_method jreq \<noteq> ''POST''"
  shows "sent (extract_handler w req) =
           \<lparr>status = 405, headers = [(''Allow'', ''POST'')], body = ErrorJson ''Method Not Allowed''\<rparr>
         \<and> trace (extract_handler w req) = []
         \<and> disk_after (extract_handler w req) = disk w
         \<and> sent (summarize_handler w jreq) =
           \<lparr>status = 405, headers = [(''Allow'', ''POST'')], body = ErrorJson ''Method Not Allowed''\<rparr>
         \<and> trace (summarize_handler w jreq) = []
         \<and> disk_after (summarize_handler w jreq) = disk w"
  using assms by (simp add: extract_handler_def summarize_handler_def method_not_allowed_def)

theorem non_post_is_method_not_allowed_witness:
  "http_method example_get \<noteq> ''POST'' \<and> http_method example_json_get \<noteq> ''POST''
   \<and> status (sent (extract_handler example_world example_get)) = 405
   \<and> trace (extract_handler example_world example_get) = []
   \<and> status (sent (summarize_handler example_world example_json_get)) = 405
   \<and> trace (summarize_handler example_world example_json_get) = []"
proof -
  have g: "http_method example_get \<noteq> ''POST''" by (simp add: example_get_def)
  have j: "http_method example_json_get \<noteq> ''POST''" by (simp add: example_json_get_def)
  show ?thesis
    using non_post_is_method_not_allowed [OF g j, of example_world] g j by simp
qed

subsection \<open>Validation in the transform route\<close>

text \<open>
  Claim C3. A POST request to the transform endpoint whose \<open>mode\<close> is not exactly
  \<open>summarize\<close> or \<open>rewrite\<close>, or whose \<open>text\<close> is missing (not a string) or empty, is
  answered with status 400, and the external model is not called: the trace is empty.
\<close>

theorem transform_rejects_invalid_input:
  assumes "http_method req = ''POST''"
    and "destructure_body (json req) = (tv, mode)"
    and "mode \<notin> {JStr ''summarize'', JStr ''rewrite''} \<or> (\<forall>t. tv \<noteq> JStr t) \<or> tv = JStr []"
  shows "status (sent (summarize_handler w req)) = 400
         \<and> trace (summarize_handler w req) = []"
  using assms
  by (cases tv)
     (auto simp: summarize_handler_def summarize_try_def respond_def ALLOWED_MODES_def trim_empty)

theorem transform_rejects_invalid_input_witness:
  "http_method example_bad_mode = ''POST''
   \<and> destructure_body (json example_bad_mode) = (JStr ''long passage'', JStr ''translate'')
   \<and> JStr ''translate'' \<notin> {JStr ''summarize'', JStr ''rewrite''}
   \<and> status (sent (summarize_handler example_world example_bad_mode)) = 400
   \<and> trace (summarize_handler example_world example_bad_mode) = []
   \<and> destructure_body (json \<lparr>http_method = ''POST'', json = JObj []\<rparr>) = (JUndefined, JUndefined)
   \<and> status (sent (summarize_handler example_world \<lparr>http_method = ''POST'', json = JObj []\<rparr>)) = 400
   \<and> trace (summarize_handler example_world \<lparr>http_method = ''POST'', json = JObj []\<rparr>) = []"
proof -
  have m: "http_method example_bad_mode = ''POST''"
    by (simp add: example_bad_mode_def)
  have d: "destructure_body (json example_bad_mode) = (JStr ''long passage'', JStr ''translate'')"
    by (simp add: example_bad_mode_def destructure_body_def coalesce_def nullish_def
        get_body_member_def get_member_def)
  have n: "JStr ''translate'' \<notin> {JStr ''summarize'', JStr ''rewrite''}"
    by simp
  have d': "destructure_body (json \<lparr>http_method = ''POST'', json = JObj []\<rparr>)
              = (JUndefined, JUndefined)"
    by (simp add: destructure_body_def coalesce_def nullish_def get_body_member_def
        get_member_def Object_prototype_def Object_prototype_functions_def)
  have u: "\<forall>t. JUndefined \<noteq> JStr t" by simp
  from transform_rejects_invalid_input [OF m d disjI1 [OF n], of example_world]
       transform_rejects_invalid_input [OF _ d' disjI2 [OF disjI1 [OF u]], of example_world]
       m d n d'
  show ?thesis by simp
qed

subsection \<open>The extraction route, path by path\<close>

lemma no_key:
  assumes "e ''GEMINI_API_KEY'' \<in> {None, Some []}" "e ''NEXT_PUBLIC_GEMINI_API_KEY'' \<in> {None, Some []}"
  shows "getGeminiApiKey e = []"
  using assms by (auto simp: getGeminiApiKey_def)

lemma processText_no_key:
  "getGeminiApiKey (env w) = [] \<Longrightarrow>
   processTextWithGemini w t m = (Inl (Error ''Missing GEMINI_API_KEY environment variable''), [])"
  by (simp add: processTextWithGemini_def)

lemma extractText_no_key:
  "getGeminiApiKey (env w) = [] \<Longrightarrow>
   extractTextFromImage w b l = (Inl (Error ''Missing GEMINI_API_KEY environment variable''), [])"
  by (simp add: extractTextFromImage_def)

lemma pipeline_eq:
  "png (normalize_op (grayscale (sharp b))) = \<lparr>input = b, ops = [Grayscale, Normalize, Png]\<rparr>"
  by (simp add: png_def normalize_op_def grayscale_def sharp_def)

lemma has_filepath_Some: "has_filepath u \<longleftrightarrow> (\<exists>f. u = Some f \<and> filepath f \<noteq> [])"
  by (auto simp: has_filepath_def split: option.splits)

text \<open>The try block, path by path.\<close>

lemma extract_try_parse_error:
  "parseMultipartRequest w req = Inl e \<Longrightarrow> extract_try w req = (None, Inl e, [FormParse])"
  by (simp add: extract_try_def)

lemma extract_try_no_file:
  "parseMultipartRequest w req = Inr (flds, fs) \<Longrightarrow> \<not> has_filepath (select_uploaded_file fs) \<Longrightarrow>
   extract_try w req =
     (select_uploaded_file fs, Inr (respond 400 (ErrorJson ''No image file uploaded'')), [FormParse])"
  by (simp add: extract_try_def)

lemma extract_try_selected:
  assumes "parseMultipartRequest w req = Inr (flds, fs)"
    and "select_uploaded_file fs = Some f" and "filepath f \<noteq> []"
  shows "extract_try w req =
     (case disk w (filepath f) of
        None \<Rightarrow> (Some f, Inl (Error ''ENOENT: no such file or directory''), [FormParse, ReadFile (filepath f)])
      | Some original \<Rightarrow>
          (case sharp_run w \<lparr>input = original, ops = [Grayscale, Normalize, Png]\<rparr> of
             Inl e \<Rightarrow> (Some f, Inl e, [FormParse, ReadFile (filepath f),
                         SharpToBuffer \<lparr>input = original, ops = [Grayscale, Normalize, Png]\<rparr>])
           | Inr cleaned \<Rightarrow>
               (case extractTextFromImage w cleaned (resolve_language (get_member flds ''language'')) of
                  (r, tr2) \<Rightarrow>
                    (Some f, (case r of Inl e \<Rightarrow> Inl e | Inr t \<Rightarrow> Inr (respond 200 (TextJson t))),
                     [FormParse, ReadFile (filepath f),
                      SharpToBuffer \<lparr>input = original, ops = [Grayscale, Normalize, Png]\<rparr>] @ tr2))))"
  using assms
  by (simp add: extract_try_def has_filepath_Some readFile_def cleanImage_def pipeline_eq Let_def
      split: option.splits sum.splits prod.splits)

lemma extract_finally_trace:
  "extract_finally w u = (d, t) \<Longrightarrow> GenerateContent r \<in> set t \<Longrightarrow> False"
  by (auto simp: extract_finally_def split: option.splits sum.splits if_splits)

lemma extractText_trace:
  "GenerateContent r \<in> set (snd (extractTextFromImage w b l)) \<Longrightarrow>
   getGeminiApiKey (env w) \<noteq> [] \<and>
   r = \<lparr>api_key = getGeminiApiKey (env w), model_name = ''gemini-2.5-flash'', role = ''user'',
        parts = [TextPart (resolve_prompt l), InlineData (Base64 b) ''image/png'']\<rparr>"
  by (auto simp: extractTextFromImage_def Let_def split: if_splits)

lemma extract_forwarded:
  assumes "GenerateContent r \<in> set (trace (extract_handler w req))"
  shows "\<exists>flds fs f original cleaned rest.
           http_method req = ''POST''
         \<and> parseMultipartRequest w req = Inr (flds, fs)
         \<and> select_uploaded_file fs = Some f \<and> filepath f \<noteq> []
         \<and> disk w (filepath f) = Some original
         \<and> sharp_run w \<lparr>input = original, ops = [Grayscale, Normalize, Png]\<rparr> = Inr cleaned
         \<and> getGeminiApiKey (env w) \<noteq> []
         \<and> r = \<lparr>api_key = getGeminiApiKey (env w), model_name = ''gemini-2.5-flash'', role = ''user'',
                parts = [TextPart (resolve_prompt (resolve_language (get_member flds ''language''))),
                         InlineData (Base64 cleaned) ''image/png'']\<rparr>
         \<and> trace (extract_handler w req) =
             [FormParse, ReadFile (filepath f),
              SharpToBuffer \<lparr>input = original, ops = [Grayscale, Normalize, Png]\<rparr>,
              GenerateContent r] @ rest"
proof -
  from assms have post: "http_method req = ''POST''"
    by (auto simp: extract_handler_def split: if_splits)
  show ?thesis
  proof (cases "parseMultipartRequest w req")
    case (Inl e)
    with assms post show ?thesis
      by (auto simp: extract_handler_def extract_try_parse_error extract_finally_def)
  next
    case (Inr p)
    then obtain flds fs where p: "parseMultipartRequest w req = Inr (flds, fs)"
      by (cases p) auto
    show ?thesis
    proof (cases "has_filepath (select_uploaded_file fs)")
      case False
      with assms post p show ?thesis
        by (auto simp: extract_handler_def extract_try_no_file split: prod.splits
            dest: extract_finally_trace)
    next
      case True
      then obtain f where f: "select_uploaded_file fs = Some f" "filepath f \<noteq> []"
        by (auto simp: has_filepath_Some)
      note tb = extract_try_selected [OF p f]
      from assms post
      have "GenerateContent r \<in> set (snd (snd (extract_try w req)))"
        by (auto simp: extract_handler_def split: prod.splits sum.splits
            dest: extract_finally_trace)
      with tb obtain original cleaned where
        o: "disk w (filepath f) = Some original" and
        c: "sharp_run w \<lparr>input = original, ops = [Grayscale, Normalize, Png]\<rparr> = Inr cleaned" and
        g: "GenerateContent r \<in> set (snd (extractTextFromImage w cleaned
              (resolve_language (get_member flds ''language''))))"
        by (auto split: option.splits sum.splits prod.splits)
      from extractText_trace [OF g] have r: "r = \<lparr>api_key = getGeminiApiKey (env w), model_name = ''gemini-2.5-flash'', role = ''user'',
                parts = [TextPart (resolve_prompt (resolve_language (get_member flds ''language''))),
                         InlineData (Base64 cleaned) ''image/png'']\<rparr>"
        and k: "getGeminiApiKey (env w) \<noteq> []" by simp_all
      from k r have tr2: "snd (extractTextFromImage w cleaned
              (resolve_language (get_member flds ''language''))) = [GenerateContent r]"
        by (simp add: extractTextFromImage_def Let_def)
      have "\<exists>rest. trace (extract_handler w req) =
             [FormParse, ReadFile (filepath f),
              SharpToBuffer \<lparr>input = original, ops = [Grayscale, Normalize, Png]\<rparr>,
              GenerateContent r] @ rest"
        using post tb o c tr2
        by (auto simp: extract_handler_def split: prod.splits sum.splits)
      with post p f o c r k show ?thesis by blast
    qed
  qed
qed

subsection \<open>Image normalization\<close>

lemma extract_success_forwards:
  assumes "status (sent (extract_handler w req)) = 200"
  shows "\<exists>r. GenerateContent r \<in> set (trace (extract_handler w req))"
proof -
  from assms have post: "http_method req = ''POST''"
    by (auto simp: extract_handler_def method_not_allowed_def split: if_splits)
  from assms post obtain flds fs where p: "parseMultipartRequest w req = Inr (flds, fs)"
    by (cases "parseMultipartRequest w req")
       (auto simp: extract_handler_def extract_try_parse_error respond_def split: prod.splits)
  have "has_filepath (select_uploaded_file fs)"
  proof (rule ccontr)
    assume "\<not> has_filepath (select_uploaded_file fs)"
    from extract_try_no_file [OF p this] assms post show False
      by (auto simp: extract_handler_def respond_def split: prod.splits)
  qed
  then obtain f where f: "select_uploaded_file fs = Some f" "filepath f \<noteq> []"
    by (auto simp: has_filepath_Some)
  from assms post show ?thesis
    unfolding extract_handler_def extract_try_selected [OF p f]
    by (auto simp: respond_def extractTextFromImage_def Let_def
        split: prod.splits sum.splits option.splits if_splits)
qed

lemma extract_finally_no_sharp:
  "extract_finally w u = (d, t) \<Longrightarrow> SharpToBuffer p \<in> set t \<Longrightarrow> False"
  by (auto simp: extract_finally_def split: option.splits sum.splits if_splits)

lemma extractText_no_sharp:
  "extractTextFromImage w b l = (r, t) \<Longrightarrow> SharpToBuffer p \<in> set t \<Longrightarrow> False"
  by (auto simp: extractTextFromImage_def Let_def split: if_splits)

text \<open>Every run of the image library in a trace is the three-stage pipeline on the file read.\<close>

lemma extract_sharp_event:
  assumes "SharpToBuffer p \<in> set (trace (extract_handler w req))"
  shows "\<exists>flds fs f original.
           parseMultipartRequest w req = Inr (flds, fs)
         \<and> select_uploaded_file fs = Some f \<and> filepath f \<noteq> []
         \<and> disk w (filepath f) = Some original
         \<and> p = \<lparr>input = original, ops = [Grayscale, Normalize, Png]\<rparr>"
proof -
  from assms have post: "http_method req = ''POST''"
    by (auto simp: extract_handler_def split: if_splits)
  show ?thesis
  proof (cases "parseMultipartRequest w req")
    case (Inl e)
    with assms post show ?thesis
      by (auto simp: extract_handler_def extract_try_parse_error extract_finally_def)
  next
    case (Inr q)
    then obtain flds fs where q: "parseMultipartRequest w req = Inr (flds, fs)"
      by (cases q) auto
    show ?thesis
    proof (cases "has_filepath (select_uploaded_file fs)")
      case False
      with assms post q show ?thesis
        by (auto simp: extract_handler_def extract_try_no_file split: prod.splits
            dest: extract_finally_no_sharp)
    next
      case True
      then obtain f where f: "select_uploaded_file fs = Some f" "filepath f \<noteq> []"
        by (auto simp: has_filepath_Some)
      note tb = extract_try_selected [OF q f]
      from assms post
      have "SharpToBuffer p \<in> set (snd (snd (extract_try w req)))"
        by (auto simp: extract_handler_def split: prod.splits sum.splits
            dest: extract_finally_no_sharp)
      with tb
      have "\<exists>original. disk w (filepath f) = Some original
              \<and> p = \<lparr>input = original, ops = [Grayscale, Normalize, Png]\<rparr>"
        by (auto split: option.splits sum.splits prod.splits dest: extractText_no_sharp)
      with q f show ?thesis by blast
    qed
  qed
qed

text \<open>
  Claim C4. Whatever the extraction endpoint forwards to the external model is what the
  image library returns for the uploaded file's bytes under exactly the pipeline
  grayscale, normalize, PNG encoding, in this order and with no parameter: a request to
  the model appears in the trace only after the file was read and the library ran that
  pipeline on it, and it carries the library's result for that pipeline as
  \<open>image/png\<close>. The library is never run on any other pipeline or input, and there is
  no other path: a 200 response implies such a call.
\<close>

theorem image_normalized_before_forwarding:
  "(GenerateContent r \<in> set (trace (extract_handler w req)) \<longrightarrow>
      (\<exists>flds fs f original cleaned prompt rest.
           parseMultipartRequest w req = Inr (flds, fs)
         \<and> select_uploaded_file fs = Some f
         \<and> disk w (filepath f) = Some original
         \<and> sharp_run w \<lparr>input = original, ops = [Grayscale, Normalize, Png]\<rparr> = Inr cleaned
         \<and> parts r = [TextPart prompt, InlineData (Base64 cleaned) ''image/png'']
         \<and> trace (extract_handler w req) =
             [FormParse, ReadFile (filepath f),
              SharpToBuffer \<lparr>input = original, ops = [Grayscale, Normalize, Png]\<rparr>,
              GenerateContent r] @ rest))
   \<and> (SharpToBuffer p \<in> set (trace (extract_handler w req)) \<longrightarrow>
        ops p = [Grayscale, Normalize, Png]
        \<and> (\<exists>flds fs f. parseMultipartRequest w req = Inr (flds, fs)
              \<and> select_uploaded_file fs = Some f \<and> disk w (filepath f) = Some (input p)))
   \<and> (status (sent (extract_handler w req)) = 200 \<longrightarrow>
        (\<exists>r'. GenerateContent r' \<in> set (trace (extract_handler w req))))"
proof -
  have a: "\<exists>flds fs f original cleaned prompt rest.
           parseMultipartRequest w req = Inr (flds, fs)
         \<and> select_uploaded_file fs = Some f
         \<and> disk w (filepath f) = Some original
         \<and> sharp_run w \<lparr>input = original, ops = [Grayscale, Normalize, Png]\<rparr> = Inr cleaned
         \<and> parts r = [TextPart prompt, InlineData (Base64 cleaned) ''image/png'']
         \<and> trace (extract_handler w req) =
             [FormParse, ReadFile (filepath f),
              SharpToBuffer \<lparr>input = original, ops = [Grayscale, Normalize, Png]\<rparr>,
              GenerateContent r] @ rest"
    if "GenerateContent r \<in> set (trace (extract_handler w req))"
  proof -
    from extract_forwarded [OF that] obtain flds fs f original cleaned rest where
      h: "parseMultipartRequest w req = Inr (flds, fs)" "select_uploaded_file fs = Some f"
         "disk w (filepath f) = Some original"
         "sharp_run w \<lparr>input = original, ops = [Grayscale, Normalize, Png]\<rparr> = Inr cleaned"
         "r = \<lparr>api_key = getGeminiApiKey (env w), model_name = ''gemini-2.5-flash'', role = ''user'',
                parts = [TextPart (resolve_prompt (resolve_language (get_member flds ''language''))),
                         InlineData (Base64 cleaned) ''image/png'']\<rparr>"
         "trace (extract_handler w req) =
             [FormParse, ReadFile (filepath f),
              SharpToBuffer \<lparr>input = original, ops = [Grayscale, Normalize, Png]\<rparr>,
              GenerateContent r] @ rest"
      by blast
    have ps: "parts r = [TextPart (resolve_prompt (resolve_language (get_member flds ''language''))),
                         InlineData (Base64 cleaned) ''image/png'']"
      by (subst h(5)) simp
    from h(1,2,3,4) ps h(6) show ?thesis by blast
  qed
  have b: "ops p = [Grayscale, Normalize, Png]
        \<and> (\<exists>flds fs f. parseMultipartRequest w req = Inr (flds, fs)
              \<and> select_uploaded_file fs = Some f \<and> disk w (filepath f) = Some (input p))"
    if "SharpToBuffer p \<in> set (trace (extract_handler w req))"
  proof -
    from extract_sharp_event [OF that] obtain flds fs f original where
      h: "parseMultipartRequest w req = Inr (flds, fs)" "select_uploaded_file fs = Some f"
         "disk w (filepath f) = Some original"
         "p = \<lparr>input = original, ops = [Grayscale, Normalize, Png]\<rparr>"
      by blast
    from h(4) have "ops p = [Grayscale, Normalize, Png]" "input p = original" by simp_all
    with h(1,2,3) show ?thesis by blast
  qed
  have c: "\<exists>r'. GenerateContent r' \<in> set (trace (extract_handler w req))"
    if "status (sent (extract_handler w req)) = 200"
    using that by (rule extract_success_forwards)
  from a b c show ?thesis by blast
qed

lemma example_run:
  "extract_handler example_world example_upload =
     \<lparr>sent = \<lparr>status = 200, headers = [], body = TextJson ''namaste''\<rparr>,
      trace = [FormParse, ReadFile ''/tmp/upload_1'',
               SharpToBuffer \<lparr>input = [7, 8, 9], ops = [Grayscale, Normalize, Png]\<rparr>,
               GenerateContent \<lparr>api_key = ''key'', model_name = ''gemini-2.5-flash'', role = ''user'',
                  parts = [TextPart (JStr hi_prompt), InlineData (Base64 [9, 8, 7]) ''image/png'']\<rparr>,
               Unlink ''/tmp/upload_1''],
      disk_after = (disk example_world)(''/tmp/upload_1'' := None)\<rparr>"
  by (simp add: extract_handler_def extract_try_def extract_finally_def example_world_def
      example_upload_def example_parse_def parseMultipartRequest_def formidable_config_def
      select_uploaded_file_def FORM_FILE_FIELDS_def normalizeFormFile_def has_filepath_def
      readFile_def cleanImage_def pipeline_eq resolve_language_def toLowerCase_def lower_char_def
      extractTextFromImage_def getGeminiApiKey_def resolve_prompt_def get_member_def
      LANGUAGE_PROMPTS_def coalesce_def nullish_def read_gemini_result_def trim_examples
      unlink_def respond_def Let_def)

lemma staged_run:
  "extract_handler staged_world example_upload =
     \<lparr>sent = \<lparr>status = 200, headers = [], body = TextJson ''namaste''\<rparr>,
      trace = [FormParse, ReadFile ''/tmp/upload_1'',
               SharpToBuffer \<lparr>input = [7, 8, 9], ops = [Grayscale, Normalize, Png]\<rparr>,
               GenerateContent \<lparr>api_key = ''key'', model_name = ''gemini-2.5-flash'', role = ''user'',
                  parts = [TextPart (JStr hi_prompt),
                           InlineData (Base64 [137, 80, 78, 71, 103, 104, 104]) ''image/png'']\<rparr>,
               Unlink ''/tmp/upload_1''],
      disk_after = (disk example_world)(''/tmp/upload_1'' := None)\<rparr>"
  by (simp add: extract_handler_def extract_try_def extract_finally_def staged_world_def
      staged_sharp_def apply_stage_def example_world_def
      example_upload_def example_parse_def parseMultipartRequest_def formidable_config_def
      select_uploaded_file_def FORM_FILE_FIELDS_def normalizeFormFile_def has_filepath_def
      readFile_def cleanImage_def pipeline_eq resolve_language_def toLowerCase_def lower_char_def
      extractTextFromImage_def getGeminiApiKey_def resolve_prompt_def get_member_def
      LANGUAGE_PROMPTS_def coalesce_def nullish_def read_gemini_result_def trim_examples
      unlink_def respond_def Let_def)

theorem image_normalized_before_forwarding_witness:
  "GenerateContent
     \<lparr>api_key = ''key'', model_name = ''gemini-2.5-flash'', role = ''user'',
      parts = [TextPart (JStr hi_prompt),
               InlineData (Base64 [137, 80, 78, 71, 103, 104, 104]) ''image/png'']\<rparr>
     \<in> set (trace (extract_handler staged_world example_upload))
   \<and> SharpToBuffer \<lparr>input = [7, 8, 9], ops = [Grayscale, Normalize, Png]\<rparr>
     \<in> set (trace (extract_handler staged_world example_upload))
   \<and> status (sent (extract_handler staged_world example_upload)) = 200
   \<and> disk staged_world ''/tmp/upload_1'' = Some [7, 8, 9]
   \<and> sharp_run staged_world \<lparr>input = [7, 8, 9], ops = [Grayscale, Normalize, Png]\<rparr>
        = Inr [137, 80, 78, 71, 103, 104, 104]
   \<and> sharp_run staged_world \<lparr>input = [7, 8, 9], ops = []\<rparr> = Inr [7, 8, 9]
   \<and> sharp_run staged_world \<lparr>input = [7, 8, 9], ops = [Normalize, Grayscale, Png]\<rparr>
        = Inr [137, 80, 78, 71, 53, 54, 54]
   \<and> (\<exists>original cleaned rest.
          disk staged_world ''/tmp/upload_1'' = Some original
        \<and> sharp_run staged_world \<lparr>input = original, ops = [Grayscale, Normalize, Png]\<rparr>
             = Inr cleaned
        \<and> trace (extract_handler staged_world example_upload) =
             [FormParse, ReadFile ''/tmp/upload_1'',
              SharpToBuffer \<lparr>input = original, ops = [Grayscale, Normalize, Png]\<rparr>,
              GenerateContent
                \<lparr>api_key = ''key'', model_name = ''gemini-2.5-flash'', role = ''user'',
                 parts = [TextPart (JStr hi_prompt), InlineData (Base64 cleaned) ''image/png'']\<rparr>]
             @ rest)"
proof -
  let ?r = "\<lparr>api_key = ''key'', model_name = ''gemini-2.5-flash'', role = ''user'',
      parts = [TextPart (JStr hi_prompt),
               InlineData (Base64 [137, 80, 78, 71, 103, 104, 104]) ''image/png'']\<rparr>"
  let ?p = "\<lparr>input = [7, 8, 9], ops = [Grayscale, Normalize, Png]\<rparr>"
  have m: "GenerateContent ?r \<in> set (trace (extract_handler staged_world example_upload))"
    and e: "SharpToBuffer ?p \<in> set (trace (extract_handler staged_world example_upload))"
    and s: "status (sent (extract_handler staged_world example_upload)) = 200"
    by (simp_all add: staged_run)
  have d: "disk staged_world ''/tmp/upload_1'' = Some [7, 8, 9]"
    by (simp add: staged_world_def example_world_def)
  have g: "sharp_run staged_world \<lparr>input = [7, 8, 9], ops = [Grayscale, Normalize, Png]\<rparr>
        = Inr [137, 80, 78, 71, 103, 104, 104]"
    "sharp_run staged_world \<lparr>input = [7, 8, 9], ops = []\<rparr> = Inr [7, 8, 9]"
    "sharp_run staged_world \<lparr>input = [7, 8, 9], ops = [Normalize, Grayscale, Png]\<rparr>
        = Inr [137, 80, 78, 71, 53, 54, 54]"
    by (simp_all add: staged_world_def staged_sharp_def apply_stage_def)
  from image_normalized_before_forwarding [of ?r staged_world example_upload ?p] m
  obtain flds fs f original cleaned prompt rest where
    h: "parseMultipartRequest staged_world example_upload = Inr (flds, fs)"
       "select_uploaded_file fs = Some f"
       "disk staged_world (filepath f) = Some original"
       "sharp_run staged_world \<lparr>input = original, ops = [Grayscale, Normalize, Png]\<rparr>
          = Inr cleaned"
       "parts ?r = [TextPart prompt, InlineData (Base64 cleaned) ''image/png'']"
       "trace (extract_handler staged_world example_upload) =
             [FormParse, ReadFile (filepath f),
              SharpToBuffer \<lparr>input = original, ops = [Grayscale, Normalize, Png]\<rparr>,
              GenerateContent ?r] @ rest"
    by blast
  from h(6) have q: "filepath f = ''/tmp/upload_1''"
    by (simp add: staged_run)
  from h(5) have c: "cleaned = [137, 80, 78, 71, 103, 104, 104]" by simp
  from h(3,4,6) q c m e s d g show ?thesis by auto
qed

subsection \<open>A missing credential\<close>

lemma summarize_no_key_trace:
  "getGeminiApiKey (env w) = [] \<Longrightarrow> GenerateContent r \<notin> set (trace (summarize_handler w req))"
  by (auto simp: summarize_handler_def summarize_try_def processText_no_key
      split: prod.splits jsval.splits sum.splits)

lemma summarize_no_key_status:
  "getGeminiApiKey (env w) = [] \<Longrightarrow> status (sent (summarize_handler w req)) \<noteq> 200"
  by (auto simp: summarize_handler_def summarize_try_def processText_no_key respond_def
      method_not_allowed_def
      split: prod.splits jsval.splits sum.splits)

lemma extract_no_key_trace:
  assumes "getGeminiApiKey (env w) = []"
  shows "GenerateContent r \<notin> set (trace (extract_handler w req))"
proof
  assume "GenerateContent r \<in> set (trace (extract_handler w req))"
  from extract_forwarded [OF this] assms show False
    by blast
qed

lemma extract_no_key_status:
  assumes "getGeminiApiKey (env w) = []"
  shows "status (sent (extract_handler w req)) \<noteq> 200"
  using extract_success_forwards [of w req] extract_no_key_trace [OF assms, of _ req]
  by blast

lemma summarize_no_key_valid:
  assumes "getGeminiApiKey (env w) = []" and "http_method jreq = ''POST''"
    and "destructure_body (json jreq) = (JStr t, mode)" and "trim t \<noteq> []"
    and "mode \<in> {JStr ''summarize'', JStr ''rewrite''}"
  shows "sent (summarize_handler w jreq) =
           respond 500 (ErrorJson ''Missing GEMINI_API_KEY environment variable'')"
  using assms
  by (auto simp: summarize_handler_def summarize_try_def processText_no_key ALLOWED_MODES_def
      message_or_default_def)

lemma extract_no_key_valid:
  assumes "getGeminiApiKey (env w) = []" and "http_method req = ''POST''"
    and p: "parseMultipartRequest w req = Inr (flds, fs)"
    and f: "select_uploaded_file fs = Some f" "filepath f \<noteq> []"
    and "disk w (filepath f) = Some original"
    and "sharp_run w \<lparr>input = original, ops = [Grayscale, Normalize, Png]\<rparr> = Inr cleaned"
  shows "sent (extract_handler w req) =
           respond 500 (ErrorJson ''Missing GEMINI_API_KEY environment variable'')"
  using assms(1,2,6,7)
  unfolding extract_handler_def extract_try_selected [OF p f]
  by (auto simp: extractText_no_key message_or_default_def split: prod.splits)

text \<open>With a selected file the handler answers 200 with a text or 500 with a message.\<close>

lemma extract_selected_sent:
  assumes "http_method req = ''POST''"
    and p: "parseMultipartRequest w req = Inr (flds, fs)"
    and f: "select_uploaded_file fs = Some f" "filepath f \<noteq> []"
  shows "(\<exists>t. sent (extract_handler w req) = respond 200 (TextJson t))
       \<or> (\<exists>e. sent (extract_handler w req) = respond 500 (ErrorJson (message_or_default e)))"
  using assms(1)
  unfolding extract_handler_def extract_try_selected [OF p f]
  by (auto split: prod.splits sum.splits option.splits)

lemma extract_no_key_selected:
  assumes k: "getGeminiApiKey (env w) = []" and m: "http_method req = ''POST''"
    and p: "parseMultipartRequest w req = Inr (flds, fs)"
    and f: "select_uploaded_file fs = Some f" "filepath f \<noteq> []"
  shows "status (sent (extract_handler w req)) = 500
       \<and> (\<exists>msg. body (sent (extract_handler w req)) = ErrorJson msg)"
  using extract_selected_sent [OF m p f] extract_no_key_status [OF k, of req]
  by (auto simp: respond_def)

text \<open>
  The environment is read at one place only, the step that calls the model: a request
  that ends before it is answered in the same way whatever the environment holds.
\<close>

lemma summarize_early_paths_ignore_env:
  assumes "http_method jreq \<noteq> ''POST''
         \<or> (\<exists>tv mode. destructure_body (json jreq) = (tv, mode)
              \<and> ((\<forall>t. tv \<noteq> JStr t) \<or> (\<exists>t. tv = JStr t \<and> trim t = [])
                  \<or> mode \<notin> set ALLOWED_MODES))"
  shows "summarize_handler (w\<lparr>env := e\<rparr>) jreq = summarize_handler w jreq"
  using assms
  by (auto simp: summarize_handler_def summarize_try_def split: jsval.splits)

lemma extract_early_paths_ignore_env:
  assumes "http_method req \<noteq> ''POST''
         \<or> (\<exists>err. parseMultipartRequest w req = Inl err)
         \<or> (\<exists>flds fs. parseMultipartRequest w req = Inr (flds, fs)
              \<and> \<not> has_filepath (select_uploaded_file fs))"
  shows "extract_handler (w\<lparr>env := e\<rparr>) req = extract_handler w req"
proof -
  have pe: "parseMultipartRequest (w\<lparr>env := e\<rparr>) req = parseMultipartRequest w req"
    by (simp add: parseMultipartRequest_def)
  have ue: "unlink (w\<lparr>env := e\<rparr>) = unlink w"
    by (rule ext) (simp add: unlink_def split: option.splits)
  have fe: "extract_finally (w\<lparr>env := e\<rparr>) u = extract_finally w u" for u
    by (simp add: extract_finally_def ue split: option.splits sum.splits)
  from assms consider "http_method req \<noteq> ''POST''"
    | err where "http_method req = ''POST''" "parseMultipartRequest w req = Inl err"
    | flds fs where "http_method req = ''POST''" "parseMultipartRequest w req = Inr (flds, fs)"
        "\<not> has_filepath (select_uploaded_file fs)"
    by blast
  then show ?thesis
  proof cases
    case 1
    then show ?thesis by (simp add: extract_handler_def)
  next
    case 2
    from 2(2) pe have "parseMultipartRequest (w\<lparr>env := e\<rparr>) req = Inl err" by simp
    from extract_try_parse_error [OF this] extract_try_parse_error [OF 2(2)] 2(1) fe
    show ?thesis by (simp add: extract_handler_def)
  next
    case 3
    from 3(2) pe have "parseMultipartRequest (w\<lparr>env := e\<rparr>) req = Inr (flds, fs)" by simp
    from extract_try_no_file [OF this 3(3)] extract_try_no_file [OF 3(2,3)] 3(1) fe
    show ?thesis by (simp add: extract_handler_def)
  qed
qed

text \<open>
  Claim C8. While the credential variable and its fall back are both absent or empty,
  neither endpoint ever calls the external model, and every call that gets past the
  endpoint's own checks fails at request time with a 5xx response that carries a
  message: a POST to the transform endpoint with a non-blank text (a string in
  well-formed UTF-8) and a valid mode, and
  a POST to the extraction endpoint whose image was read and normalized, are answered
  with status 500 and \<open>Missing GEMINI_API_KEY environment variable\<close>; a POST to the
  extraction endpoint with a selected file is answered with status 500 in any case. The
  failure belongs to the request, not to the start of the service: a request that ends
  before the model step (wrong method, invalid input, no file, rejected upload) is
  answered exactly as it is when a credential is there.
\<close>

theorem missing_credential_fails_at_request_time:
  assumes "env w ''GEMINI_API_KEY'' \<in> {None, Some []}"
    and "env w ''NEXT_PUBLIC_GEMINI_API_KEY'' \<in> {None, Some []}"
  shows "(\<forall>r. GenerateContent r \<notin> set (trace (extract_handler w req)))
       \<and> (\<forall>r. GenerateContent r \<notin> set (trace (summarize_handler w jreq)))
       \<and> (http_method jreq = ''POST'' \<and> destructure_body (json jreq) = (JStr t, mode)
            \<and> valid_utf8 t \<and> trim t \<noteq> []
            \<and> mode \<in> {JStr ''summarize'', JStr ''rewrite''} \<longrightarrow>
          status (sent (summarize_handler w jreq)) = 500
          \<and> body (sent (summarize_handler w jreq)) =
              ErrorJson ''Missing GEMINI_API_KEY environment variable'')
       \<and> (http_method req = ''POST'' \<and> parseMultipartRequest w req = Inr (flds, fs)
            \<and> select_uploaded_file fs = Some f \<and> filepath f \<noteq> [] \<longrightarrow>
          status (sent (extract_handler w req)) = 500
          \<and> (\<exists>msg. body (sent (extract_handler w req)) = ErrorJson msg)
          \<and> (disk w (filepath f) = Some original
               \<and> sharp_run w \<lparr>input = original, ops = [Grayscale, Normalize, Png]\<rparr> = Inr cleaned
               \<longrightarrow>
              body (sent (extract_handler w req)) =
                ErrorJson ''Missing GEMINI_API_KEY environment variable''))
       \<and> (http_method jreq \<noteq> ''POST''
            \<or> (\<exists>tv mode. destructure_body (json jreq) = (tv, mode)
                 \<and> ((\<forall>t. tv \<noteq> JStr t) \<or> (\<exists>t. tv = JStr t \<and> trim t = [])
                     \<or> mode \<notin> set ALLOWED_MODES)) \<longrightarrow>
          (\<forall>e. summarize_handler (w\<lparr>env := e\<rparr>) jreq = summarize_handler w jreq))
       \<and> (http_method req \<noteq> ''POST''
            \<or> (\<exists>err. parseMultipartRequest w req = Inl err)
            \<or> (\<exists>flds fs. parseMultipartRequest w req = Inr (flds, fs)
                 \<and> \<not> has_filepath (select_uploaded_file fs)) \<longrightarrow>
          (\<forall>e. extract_handler (w\<lparr>env := e\<rparr>) req = extract_handler w req))"
proof -
  from assms have k: "getGeminiApiKey (env w) = []" by (rule no_key)
  have a: "\<forall>r. GenerateContent r \<notin> set (trace (extract_handler w req))"
    using extract_no_key_trace [OF k] by blast
  have b: "\<forall>r. GenerateContent r \<notin> set (trace (summarize_handler w jreq))"
    using summarize_no_key_trace [OF k] by blast
  have c: "http_method jreq = ''POST'' \<and> destructure_body (json jreq) = (JStr t, mode)
            \<and> valid_utf8 t \<and> trim t \<noteq> []
            \<and> mode \<in> {JStr ''summarize'', JStr ''rewrite''} \<longrightarrow>
          status (sent (summarize_handler w jreq)) = 500
          \<and> body (sent (summarize_handler w jreq)) =
              ErrorJson ''Missing GEMINI_API_KEY environment variable''"
    using summarize_no_key_valid [OF k, of jreq t mode] by (simp add: respond_def)
  have d: "http_method req = ''POST'' \<and> parseMultipartRequest w req = Inr (flds, fs)
            \<and> select_uploaded_file fs = Some f \<and> filepath f \<noteq> [] \<longrightarrow>
          status (sent (extract_handler w req)) = 500
          \<and> (\<exists>msg. body (sent (extract_handler w req)) = ErrorJson msg)
          \<and> (disk w (filepath f) = Some original
               \<and> sharp_run w \<lparr>input = original, ops = [Grayscale, Normalize, Png]\<rparr> = Inr cleaned
               \<longrightarrow>
              body (sent (extract_handler w req)) =
                ErrorJson ''Missing GEMINI_API_KEY environment variable'')"
    using extract_no_key_selected [OF k, of req flds fs f]
      extract_no_key_valid [OF k, of req flds fs f original cleaned]
    by (simp add: respond_def)
  from a b c d summarize_early_paths_ignore_env [where jreq = jreq and w = w]
    extract_early_paths_ignore_env [where req = req and w = w]
  show ?thesis by blast
qed

lemma example_select:
  "select_uploaded_file [(''file'', FileArray [\<lparr>filepath = ''/tmp/upload_1''\<rparr>])]
     = Some \<lparr>filepath = ''/tmp/upload_1''\<rparr>"
  by (simp add: select_uploaded_file_def FORM_FILE_FIELDS_def normalizeFormFile_def has_filepath_def)

theorem missing_credential_fails_at_request_time_witness:
  "env world_without_key ''GEMINI_API_KEY'' \<in> {None, Some []}
   \<and> env world_without_key ''NEXT_PUBLIC_GEMINI_API_KEY'' \<in> {None, Some []}
   \<and> http_method example_transform = ''POST''
   \<and> destructure_body (json example_transform) = (JStr ''long passage'', JStr ''rewrite'')
   \<and> valid_utf8 ''long passage'' \<and> trim ''long passage'' \<noteq> []
   \<and> status (sent (summarize_handler world_without_key example_transform)) = 500
   \<and> body (sent (summarize_handler world_without_key example_transform)) =
        ErrorJson ''Missing GEMINI_API_KEY environment variable''
   \<and> http_method example_upload = ''POST''
   \<and> status (sent (extract_handler world_without_key example_upload)) = 500
   \<and> body (sent (extract_handler world_without_key example_upload)) =
        ErrorJson ''Missing GEMINI_API_KEY environment variable''
   \<and> http_method example_json_get \<noteq> ''POST''
   \<and> summarize_handler (world_without_key\<lparr>env := env example_world\<rparr>) example_json_get
        = summarize_handler world_without_key example_json_get
   \<and> http_method example_get \<noteq> ''POST''
   \<and> extract_handler (world_without_key\<lparr>env := env example_world\<rparr>) example_get
        = extract_handler world_without_key example_get"
proof -
  have e: "env world_without_key ''GEMINI_API_KEY'' \<in> {None, Some []}"
          "env world_without_key ''NEXT_PUBLIC_GEMINI_API_KEY'' \<in> {None, Some []}"
    by (simp_all add: world_without_key_def)
  have j: "http_method example_transform = ''POST''"
          "destructure_body (json example_transform) = (JStr ''long passage'', JStr ''rewrite'')"
          "trim ''long passage'' \<noteq> []"
    by (simp_all add: example_transform_def destructure_body_def coalesce_def nullish_def
        get_body_member_def get_member_def trim_examples)
  have v: "valid_utf8 ''long passage''"
    by code_simp
  have u: "http_method example_upload = ''POST''"
          "parseMultipartRequest world_without_key example_upload =
             Inr ([(''language'', JArr [JStr ''HI''])],
                  [(''file'', FileArray [\<lparr>filepath = ''/tmp/upload_1''\<rparr>])])"
          "filepath \<lparr>filepath = ''/tmp/upload_1''\<rparr> \<noteq> []"
          "disk world_without_key (filepath \<lparr>filepath = ''/tmp/upload_1''\<rparr>) = Some [7, 8, 9]"
          "sharp_run world_without_key \<lparr>input = [7, 8, 9], ops = [Grayscale, Normalize, Png]\<rparr>
             = Inr [9, 8, 7]"
    by (simp_all add: example_upload_def parseMultipartRequest_def world_without_key_def
        example_world_def example_parse_def formidable_config_def)
  have g: "http_method example_json_get \<noteq> ''POST''" "http_method example_get \<noteq> ''POST''"
    by (simp_all add: example_json_get_def example_get_def)
  note thm1 = missing_credential_fails_at_request_time [OF e, of example_upload example_transform
      "''long passage''" "JStr ''rewrite''" "[(''language'', JArr [JStr ''HI''])]"
      "[(''file'', FileArray [\<lparr>filepath = ''/tmp/upload_1''\<rparr>])]"
      "\<lparr>filepath = ''/tmp/upload_1''\<rparr>" "[7, 8, 9]" "[9, 8, 7]"]
  note thm2 = missing_credential_fails_at_request_time [OF e, of example_get example_json_get]
  from thm1 j v have s1: "status (sent (summarize_handler world_without_key example_transform)) = 500
      \<and> body (sent (summarize_handler world_without_key example_transform)) =
        ErrorJson ''Missing GEMINI_API_KEY environment variable''"
    by blast
  from thm1 u example_select have s2: "status (sent (extract_handler world_without_key example_upload)) = 500
      \<and> body (sent (extract_handler world_without_key example_upload)) =
        ErrorJson ''Missing GEMINI_API_KEY environment variable''"
    by blast
  from thm2 g have s3: "summarize_handler (world_without_key\<lparr>env := env example_world\<rparr>) example_json_get
        = summarize_handler world_without_key example_json_get"
    "extract_handler (world_without_key\<lparr>env := env example_world\<rparr>) example_get
        = extract_handler world_without_key example_get"
    by blast+
  from e j v u(1) g s1 s2 s3 show ?thesis by simp
qed

subsection \<open>The upload size limit\<close>

text \<open>
  Claim C10. The extraction endpoint builds the multipart parser with a maximum file
  size of 25 MiB (26214400 bytes). Given a parser that rejects an upload over its
  limit, an upload over 25 MiB makes \<open>parseMultipartRequest\<close> reject, and the handler
  answers with status 500 and the parser's message through the top-level \<open>catch\<close>, not
  with 400; no file is read or removed and the model is not called.
\<close>

theorem oversized_upload_is_server_error:
  assumes "http_method req = ''POST''"
    and "25 * 1024 * 1024 < upload_bytes req"
    and "\<And>opts. maxFileSize opts < upload_bytes req \<Longrightarrow> \<exists>e. form_parse w opts req = Inl e"
  shows "maxFileSize formidable_config = 26214400
       \<and> (\<exists>e. parseMultipartRequest w req = Inl e
             \<and> sent (extract_handler w req) =
                 \<lparr>status = 500, headers = [], body = ErrorJson (message_or_default e)\<rparr>
             \<and> trace (extract_handler w req) = [FormParse, ConsoleError ''/api/extract error'' e]
             \<and> disk_after (extract_handler w req) = disk w)"
proof -
  have m: "maxFileSize formidable_config = 26214400"
    by (simp add: formidable_config_def)
  with assms(2) have "maxFileSize formidable_config < upload_bytes req" by simp
  from assms(3) [OF this] obtain e where e: "parseMultipartRequest w req = Inl e"
    by (auto simp: parseMultipartRequest_def)
  from assms(1) have "sent (extract_handler w req) =
                 \<lparr>status = 500, headers = [], body = ErrorJson (message_or_default e)\<rparr>
             \<and> trace (extract_handler w req) = [FormParse, ConsoleError ''/api/extract error'' e]
             \<and> disk_after (extract_handler w req) = disk w"
    by (simp add: extract_handler_def extract_try_parse_error [OF e] extract_finally_def respond_def)
  with m e show ?thesis by blast
qed

theorem oversized_upload_is_server_error_witness:
  "http_method example_large_upload = ''POST''
   \<and> 25 * 1024 * 1024 < upload_bytes example_large_upload
   \<and> form_parse example_world formidable_config example_large_upload =
        Inl (Error ''options.maxFileSize exceeded'')
   \<and> sent (extract_handler example_world example_large_upload) =
        \<lparr>status = 500, headers = [], body = ErrorJson ''options.maxFileSize exceeded''\<rparr>"
proof -
  have p: "http_method example_large_upload = ''POST''"
    and b: "25 * 1024 * 1024 < upload_bytes example_large_upload"
    by (simp_all add: example_large_upload_def)
  have c: "\<And>opts. maxFileSize opts < upload_bytes example_large_upload \<Longrightarrow>
             \<exists>e. form_parse example_world opts example_large_upload = Inl e"
    by (simp add: example_world_def example_parse_def)
  have f: "form_parse example_world formidable_config example_large_upload =
        Inl (Error ''options.maxFileSize exceeded'')"
    by (simp add: example_world_def example_parse_def formidable_config_def example_large_upload_def)
  from oversized_upload_is_server_error [OF p b c] f p b
  show ?thesis
    by (auto simp: parseMultipartRequest_def message_or_default_def)
qed

subsection \<open>Removal of the temporary file\<close>

text \<open>
  The \<open>finally\<close> block with a selected file: one call of \<open>unlink\<close>, and a
  warning when it fails.
\<close>

lemma extract_finally_selected:
  assumes "filepath f \<noteq> []"
  shows "extract_finally w (Some f) =
     (case unlink w (filepath f) of
        Inr d \<Rightarrow> (d, [Unlink (filepath f)])
      | Inl e \<Rightarrow> (disk w, [Unlink (filepath f), ConsoleWarn ''Failed to remove temp file'' e]))"
  using assms by (simp add: extract_finally_def)

lemma extract_try_selected_shape:
  assumes "parseMultipartRequest w req = Inr (flds, fs)"
    and "select_uploaded_file fs = Some f" and "filepath f \<noteq> []"
  shows "\<exists>r tr. extract_try w req = (Some f, r, tr)
                \<and> (\<forall>res. r = Inr res \<longrightarrow> status res = 200)"
  unfolding extract_try_selected [OF assms]
  by (auto simp: respond_def split: option.splits sum.splits prod.splits)

text \<open>The response does not depend on whether the removal is refused.\<close>

lemma extract_try_ignores_unlink:
  "extract_try (w\<lparr>unlink_failure := u\<rparr>) req = extract_try w req"
proof -
  have c: "cleanImage (w\<lparr>unlink_failure := u\<rparr>) = cleanImage w"
    by (rule ext) (simp add: cleanImage_def Let_def)
  have x: "extractTextFromImage (w\<lparr>unlink_failure := u\<rparr>) = extractTextFromImage w"
    by (rule ext)+ (simp add: extractTextFromImage_def Let_def)
  show ?thesis
    by (simp add: extract_try_def parseMultipartRequest_def c x Let_def
        cong: sum.case_cong prod.case_cong if_cong)
qed

lemma extract_sent_ignores_unlink:
  "sent (extract_handler (w\<lparr>unlink_failure := u\<rparr>) req) = sent (extract_handler w req)"
  by (simp add: extract_handler_def extract_try_ignores_unlink
      split: prod.splits sum.splits)

text \<open>
  Claim C2, amended. When the multipart parse resolved and the handler selected an
  uploaded file with a path, the handler ends with status 200 or 500 (the 400 path
  selects no file) and on each of these paths calls \<open>unlink\<close> on that path before it
  returns: when the call succeeds the file is gone from the disk on return; when it
  fails the failure is only logged, as the last action, and the disk is left as it
  was. In particular the file is gone whenever the operating system does not refuse
  the removal. The response is the same whether the removal is refused or not.
\<close>

theorem selected_upload_is_unlinked:
  assumes "http_method req = ''POST''"
    and "parseMultipartRequest w req = Inr (flds, fs)"
    and "select_uploaded_file fs = Some f" and "filepath f \<noteq> []"
  shows "status (sent (extract_handler w req)) \<in> {200, 500}
       \<and> Unlink (filepath f) \<in> set (trace (extract_handler w req))
       \<and> (\<forall>d. unlink w (filepath f) = Inr d \<longrightarrow>
            disk_after (extract_handler w req) = d \<and> d (filepath f) = None
            \<and> last (trace (extract_handler w req)) = Unlink (filepath f))
       \<and> (\<forall>e. unlink w (filepath f) = Inl e \<longrightarrow>
            disk_after (extract_handler w req) = disk w
            \<and> last (trace (extract_handler w req)) = ConsoleWarn ''Failed to remove temp file'' e)
       \<and> (unlink_failure w (filepath f) = None \<longrightarrow>
            disk_after (extract_handler w req) (filepath f) = None)
       \<and> (\<forall>u. sent (extract_handler (w\<lparr>unlink_failure := u\<rparr>) req) =
                sent (extract_handler w req))"
proof -
  have same: "\<forall>u. sent (extract_handler (w\<lparr>unlink_failure := u\<rparr>) req) =
                sent (extract_handler w req)"
    by (simp add: extract_sent_ignores_unlink)
  from extract_try_selected_shape [OF assms(2,3,4)] obtain r tr where
    t: "extract_try w req = (Some f, r, tr)" and ok: "\<forall>res. r = Inr res \<longrightarrow> status res = 200"
    by blast
  note fin = extract_finally_selected [OF assms(4), of w]
  show ?thesis
  proof (cases "unlink w (filepath f)")
    case (Inl e)
    then have gone: "unlink_failure w (filepath f) = None \<Longrightarrow> disk w (filepath f) = None"
      by (auto simp: unlink_def split: if_splits option.splits)
    from Inl assms(1) t ok fin gone
    have "status (sent (extract_handler w req)) \<in> {200, 500}
       \<and> Unlink (filepath f) \<in> set (trace (extract_handler w req))
       \<and> (\<forall>d. unlink w (filepath f) = Inr d \<longrightarrow>
            disk_after (extract_handler w req) = d \<and> d (filepath f) = None
            \<and> last (trace (extract_handler w req)) = Unlink (filepath f))
       \<and> (\<forall>e. unlink w (filepath f) = Inl e \<longrightarrow>
            disk_after (extract_handler w req) = disk w
            \<and> last (trace (extract_handler w req)) = ConsoleWarn ''Failed to remove temp file'' e)
       \<and> (unlink_failure w (filepath f) = None \<longrightarrow>
            disk_after (extract_handler w req) (filepath f) = None)"
      by (cases r) (auto simp: extract_handler_def respond_def)
    with same show ?thesis by blast
  next
    case (Inr d)
    then have "d (filepath f) = None"
      by (auto simp: unlink_def split: if_splits option.splits)
    with Inr assms(1) t ok fin
    have "status (sent (extract_handler w req)) \<in> {200, 500}
       \<and> Unlink (filepath f) \<in> set (trace (extract_handler w req))
       \<and> (\<forall>d. unlink w (filepath f) = Inr d \<longrightarrow>
            disk_after (extract_handler w req) = d \<and> d (filepath f) = None
            \<and> last (trace (extract_handler w req)) = Unlink (filepath f))
       \<and> (\<forall>e. unlink w (filepath f) = Inl e \<longrightarrow>
            disk_after (extract_handler w req) = disk w
            \<and> last (trace (extract_handler w req)) = ConsoleWarn ''Failed to remove temp file'' e)
       \<and> (unlink_failure w (filepath f) = None \<longrightarrow>
            disk_after (extract_handler w req) (filepath f) = None)"
      by (cases r) (auto simp: extract_handler_def respond_def)
    with same show ?thesis by blast
  qed
qed

theorem selected_upload_is_unlinked_witness:
  "http_method example_upload = ''POST''
   \<and> parseMultipartRequest example_world example_upload =
        Inr ([(''language'', JArr [JStr ''HI''])],
             [(''file'', FileArray [\<lparr>filepath = ''/tmp/upload_1''\<rparr>])])
   \<and> select_uploaded_file [(''file'', FileArray [\<lparr>filepath = ''/tmp/upload_1''\<rparr>])] =
        Some \<lparr>filepath = ''/tmp/upload_1''\<rparr>
   \<and> disk example_world ''/tmp/upload_1'' = Some [7, 8, 9]
   \<and> unlink_failure example_world ''/tmp/upload_1'' = None
   \<and> Unlink ''/tmp/upload_1'' \<in> set (trace (extract_handler example_world example_upload))
   \<and> disk_after (extract_handler example_world example_upload) ''/tmp/upload_1'' = None"
proof -
  have m: "http_method example_upload = ''POST''"
    by (simp add: example_upload_def)
  have p: "parseMultipartRequest example_world example_upload =
        Inr ([(''language'', JArr [JStr ''HI''])],
             [(''file'', FileArray [\<lparr>filepath = ''/tmp/upload_1''\<rparr>])])"
    by (simp add: parseMultipartRequest_def example_world_def example_parse_def
        formidable_config_def example_upload_def)
  have n: "filepath \<lparr>filepath = ''/tmp/upload_1''\<rparr> \<noteq> []" by simp
  have d: "disk example_world ''/tmp/upload_1'' = Some [7, 8, 9]"
    and u: "unlink_failure example_world ''/tmp/upload_1'' = None"
    by (simp_all add: example_world_def)
  from selected_upload_is_unlinked [OF m p example_select n] m p example_select d u
  show ?thesis by simp
qed

text \<open>
  Claim C2 as stated fails: when \<open>unlink\<close> itself fails, the handler logs a warning and
  returns with the temporary file still on the disk, here after a successful extraction.
\<close>

theorem failed_unlink_leaves_upload:
  "disk world_unlink_refused ''/tmp/upload_1'' = Some [7, 8, 9]
   \<and> status (sent (extract_handler world_unlink_refused example_upload)) = 200
   \<and> trace (extract_handler world_unlink_refused example_upload) =
        [FormParse, ReadFile ''/tmp/upload_1'',
         SharpToBuffer \<lparr>input = [7, 8, 9], ops = [Grayscale, Normalize, Png]\<rparr>,
         GenerateContent \<lparr>api_key = ''key'', model_name = ''gemini-2.5-flash'', role = ''user'',
            parts = [TextPart (JStr hi_prompt), InlineData (Base64 [9, 8, 7]) ''image/png'']\<rparr>,
         Unlink ''/tmp/upload_1'',
         ConsoleWarn ''Failed to remove temp file'' (Error ''EPERM: operation not permitted'')]
   \<and> disk_after (extract_handler world_unlink_refused example_upload) ''/tmp/upload_1''
        = Some [7, 8, 9]"
  by (simp add: extract_handler_def extract_try_def extract_finally_def world_unlink_refused_def
      example_world_def
      example_upload_def example_parse_def parseMultipartRequest_def formidable_config_def
      select_uploaded_file_def FORM_FILE_FIELDS_def normalizeFormFile_def has_filepath_def
      readFile_def cleanImage_def pipeline_eq resolve_language_def toLowerCase_def lower_char_def
      extractTextFromImage_def getGeminiApiKey_def resolve_prompt_def get_member_def
      LANGUAGE_PROMPTS_def coalesce_def nullish_def read_gemini_result_def trim_examples
      unlink_def respond_def Let_def)

text \<open>
  Only the selected file is removed: of two files in one request, the one under
  \<open>image\<close> is still on the disk when the handler returns.
\<close>

theorem other_upload_is_left_on_disk:
  "status (sent (extract_handler two_file_world example_upload)) = 200
   \<and> disk_after (extract_handler two_file_world example_upload) ''/tmp/upload_1'' = None
   \<and> disk_after (extract_handler two_file_world example_upload) ''/tmp/upload_2'' = Some [4, 5, 6]"
  by (simp add: extract_handler_def extract_try_def extract_finally_def two_file_world_def
      example_world_def example_upload_def parseMultipartRequest_def
      select_uploaded_file_def FORM_FILE_FIELDS_def normalizeFormFile_def has_filepath_def
      readFile_def cleanImage_def pipeline_eq resolve_language_def
      extractTextFromImage_def getGeminiApiKey_def resolve_prompt_def get_member_def
      LANGUAGE_PROMPTS_def Object_prototype_def Object_prototype_functions_def
      coalesce_def nullish_def read_gemini_result_def trim_examples
      unlink_def respond_def Let_def)

subsection \<open>Language hints\<close>

text \<open>
  The language field and the prompt table.
\<close>

lemma lower_ascii_examples:
  "toLowerCase ''auto'' = ''auto''" "toLowerCase ''en'' = ''en''" "toLowerCase ''hi'' = ''hi''"
  "toLowerCase ''mr'' = ''mr''" "toLowerCase ''es'' = ''es''" "toLowerCase ''EN'' = ''en''"
  "toLowerCase ''FR'' = ''fr''"
  by (simp_all add: toLowerCase_def lower_char_def)

lemma resolve_language_string: "resolve_language (JStr s) = toLowerCase s"
  by (simp add: resolve_language_def)

lemma resolve_prompt_table:
  "resolve_prompt ''auto'' = JStr auto_prompt" "resolve_prompt ''en'' = JStr en_prompt"
  "resolve_prompt ''hi'' = JStr hi_prompt" "resolve_prompt ''mr'' = JStr mr_prompt"
  "resolve_prompt ''es'' = JStr es_prompt"
  by (simp_all add: resolve_prompt_def get_member_def LANGUAGE_PROMPTS_def coalesce_def nullish_def)

lemma resolve_prompt_fallback:
  assumes "l \<notin> {''auto'', ''en'', ''hi'', ''mr'', ''es''}" and "l \<notin> set inherited_names"
  shows "resolve_prompt l = JStr auto_prompt"
proof -
  from assms(1) have own: "map_of LANGUAGE_PROMPTS l = None"
    by (simp add: LANGUAGE_PROMPTS_def)
  from assms(2) have inh: "map_of Object_prototype l = None"
    by (simp add: inherited_names_def map_of_eq_None_iff)
  have "get_member LANGUAGE_PROMPTS l = JUndefined"
    by (simp add: get_member_def own inh)
  moreover have "get_member LANGUAGE_PROMPTS ''auto'' = JStr auto_prompt"
    by (simp add: get_member_def LANGUAGE_PROMPTS_def)
  ultimately show ?thesis
    by (simp add: resolve_prompt_def coalesce_def nullish_def)
qed

lemma language_not_inherited: "''language'' \<notin> set inherited_names"
  by (simp add: inherited_names_def Object_prototype_def Object_prototype_functions_def)

lemma absent_language_field:
  assumes "map_of flds ''language'' = None"
  shows "get_member flds ''language'' = JUndefined"
proof -
  from language_not_inherited have "map_of Object_prototype ''language'' = None"
    by (simp add: inherited_names_def map_of_eq_None_iff)
  with assms show ?thesis by (simp add: get_member_def)
qed

lemma forwarded_prompt:
  assumes "GenerateContent r \<in> set (trace (extract_handler w req))"
    and "parseMultipartRequest w req = Inr (flds, fs)"
  shows "hd (parts r) = TextPart (resolve_prompt (resolve_language (get_member flds ''language'')))"
  using extract_forwarded [OF assms(1)] assms(2) by auto

text \<open>
  Claim C1, amended. For each of the five hints \<open>auto\<close>, \<open>en\<close>, \<open>hi\<close>, \<open>mr\<close>, \<open>es\<close> the
  extraction endpoint resolves the prompt to that entry's fixed string. For an absent
  hint, and for every other string hint whose lower-cased form is none of the five and
  is not a property name inherited from \<open>Object.prototype\<close>, the resolved prompt is the
  \<open>auto\<close> entry's string. The prompt sent to the model is the one so resolved from the
  request's \<open>language\<close> field.
\<close>

theorem language_prompt_lookup:
  "resolve_prompt (resolve_language (JStr ''auto'')) = JStr auto_prompt
   \<and> resolve_prompt (resolve_language (JStr ''en'')) = JStr en_prompt
   \<and> resolve_prompt (resolve_language (JStr ''hi'')) = JStr hi_prompt
   \<and> resolve_prompt (resolve_language (JStr ''mr'')) = JStr mr_prompt
   \<and> resolve_prompt (resolve_language (JStr ''es'')) = JStr es_prompt
   \<and> (toLowerCase s \<notin> {''auto'', ''en'', ''hi'', ''mr'', ''es''}
        \<and> toLowerCase s \<notin> set inherited_names \<longrightarrow>
      resolve_prompt (resolve_language (JStr s)) = JStr auto_prompt)
   \<and> (map_of flds ''language'' = None \<longrightarrow>
      resolve_prompt (resolve_language (get_member flds ''language'')) = JStr auto_prompt)
   \<and> (GenerateContent r \<in> set (trace (extract_handler w req))
        \<and> parseMultipartRequest w req = Inr (flds, fs) \<longrightarrow>
      hd (parts r) = TextPart (resolve_prompt (resolve_language (get_member flds ''language''))))"
  using resolve_prompt_fallback [of "toLowerCase s"] absent_language_field [of flds]
    forwarded_prompt [of r w req flds fs]
  by (simp add: resolve_language_string lower_ascii_examples resolve_prompt_table
      resolve_language_def)

theorem language_prompt_lookup_witness:
  "toLowerCase ''FR'' \<notin> {''auto'', ''en'', ''hi'', ''mr'', ''es''}
   \<and> toLowerCase ''FR'' \<notin> set inherited_names
   \<and> resolve_prompt (resolve_language (JStr ''FR'')) = JStr auto_prompt
   \<and> map_of ([] :: fields) ''language'' = None
   \<and> resolve_prompt (resolve_language (get_member [] ''language'')) = JStr auto_prompt
   \<and> parseMultipartRequest example_world example_upload =
        Inr ([(''language'', JArr [JStr ''HI''])],
             [(''file'', FileArray [\<lparr>filepath = ''/tmp/upload_1''\<rparr>])])
   \<and> resolve_prompt (resolve_language (get_member [(''language'', JArr [JStr ''HI''])] ''language''))
        = JStr hi_prompt"
proof -
  let ?r = "\<lparr>api_key = ''key'', model_name = ''gemini-2.5-flash'', role = ''user'',
      parts = [TextPart (JStr hi_prompt), InlineData (Base64 [9, 8, 7]) ''image/png'']\<rparr>"
  have a: "toLowerCase ''FR'' \<notin> {''auto'', ''en'', ''hi'', ''mr'', ''es''}"
    and b: "toLowerCase ''FR'' \<notin> set inherited_names"
    by (simp_all add: lower_ascii_examples inherited_names_def Object_prototype_def
        Object_prototype_functions_def)
  have m: "GenerateContent ?r \<in> set (trace (extract_handler example_world example_upload))"
    by (simp add: example_run)
  have p: "parseMultipartRequest example_world example_upload =
        Inr ([(''language'', JArr [JStr ''HI''])],
             [(''file'', FileArray [\<lparr>filepath = ''/tmp/upload_1''\<rparr>])])"
    by (simp add: parseMultipartRequest_def example_world_def example_parse_def
        formidable_config_def example_upload_def)
  from language_prompt_lookup [of "''FR''"]
  have "resolve_prompt (resolve_language (JStr ''FR'')) = JStr auto_prompt"
    using a b by blast
  moreover
  from language_prompt_lookup [where flds = "[]"]
  have "resolve_prompt (resolve_language (get_member [] ''language'')) = JStr auto_prompt"
    by simp
  moreover 
  from language_prompt_lookup [of _ "[(''language'', JArr [JStr ''HI''])]" ?r example_world
      example_upload "[(''file'', FileArray [\<lparr>filepath = ''/tmp/upload_1''\<rparr>])]"] m p
  have "resolve_prompt (resolve_language (get_member [(''language'', JArr [JStr ''HI''])] ''language''))
        = JStr hi_prompt"
    by simp
  ultimately show ?thesis using a b p by simp
qed

text \<open>
  Claim C1 as stated fails: the hint \<open>EN\<close> is none of the five table keys, and it
  resolves to the \<open>en\<close> entry, not to the \<open>auto\<close> entry.
\<close>

theorem upper_case_hint_is_not_auto:
  "''EN'' \<notin> {''auto'', ''en'', ''hi'', ''mr'', ''es''}
   \<and> resolve_prompt (resolve_language (JStr ''EN'')) = JStr en_prompt
   \<and> JStr en_prompt \<noteq> JStr auto_prompt"
  by (simp add: resolve_language_string lower_ascii_examples resolve_prompt_table
      en_prompt_def auto_prompt_def)

text \<open>
  A hint that names a member of \<open>Object.prototype\<close> finds that member, which is not
  nullish, so the fall back to \<open>auto\<close> is not taken and the prompt is not a string.
\<close>

lemma inherited_name_hint:
  "resolve_prompt (resolve_language (JStr ''constructor'')) = JFun ''constructor''"
  by (simp add: resolve_language_string toLowerCase_def lower_char_def resolve_prompt_def
      get_member_def LANGUAGE_PROMPTS_def Object_prototype_def Object_prototype_functions_def
      coalesce_def nullish_def)

text \<open>
  Claim C9, amended. A language field that is a string, or an array whose first element
  is a string, is lower-cased before the prompt lookup, so \<open>EN\<close> resolves to the same
  prompt as \<open>en\<close>. Every other field value (neither a string nor an array, an empty array,
  an array whose first element is not a string) resolves to \<open>auto\<close>. The prompt sent to
  the model is looked up under the language so resolved.
\<close>

theorem language_hint_is_lower_cased:
  "resolve_language (JStr s) = toLowerCase s
   \<and> resolve_language (JArr (JStr s # xs)) = toLowerCase s
   \<and> resolve_prompt (resolve_language (JStr ''EN'')) = resolve_prompt (resolve_language (JStr ''en''))
   \<and> ((\<forall>t. v \<noteq> JStr t) \<and> (\<forall>ys. v \<noteq> JArr ys) \<longrightarrow> resolve_language v = ''auto'')
   \<and> resolve_language (JArr []) = ''auto''
   \<and> ((\<forall>t. x \<noteq> JStr t) \<longrightarrow> resolve_language (JArr (x # xs)) = ''auto'')
   \<and> (GenerateContent r \<in> set (trace (extract_handler w req))
        \<and> parseMultipartRequest w req = Inr (flds, fs) \<longrightarrow>
      hd (parts r) = TextPart (resolve_prompt (resolve_language (get_member flds ''language''))))"
proof -
  have a: "(\<forall>t. v \<noteq> JStr t) \<and> (\<forall>ys. v \<noteq> JArr ys) \<longrightarrow> resolve_language v = ''auto''"
    by (cases v) (simp_all add: resolve_language_def)
  have b: "(\<forall>t. x \<noteq> JStr t) \<longrightarrow> resolve_language (JArr (x # xs)) = ''auto''"
    by (cases x) (simp_all add: resolve_language_def)
  from a b forwarded_prompt [of r w req flds fs] show ?thesis
    by (simp add: resolve_language_def lower_ascii_examples)
qed

theorem language_hint_is_lower_cased_witness:
  "(\<forall>t. JNum 7 \<noteq> JStr t) \<and> (\<forall>ys. JNum 7 \<noteq> JArr ys)
   \<and> resolve_language (JNum 7) = ''auto''
   \<and> (\<forall>t. JNull \<noteq> JStr t)
   \<and> resolve_language (JArr [JNull, JStr ''EN'']) = ''auto''
   \<and> resolve_language (JStr ''Hi'') = ''hi''
   \<and> resolve_language (JArr [JStr ''Hi'']) = ''hi''"
proof -
  have l: "toLowerCase ''Hi'' = ''hi''"
    by (simp add: toLowerCase_def lower_char_def)
  from language_hint_is_lower_cased [of "''Hi''" "[]" "JNum 7" JNull]
       language_hint_is_lower_cased [of "''Hi''" "[JStr ''EN'']" "JNum 7" JNull] l
  show ?thesis by simp
qed

text \<open>
  Claim C9 as stated fails: the array \<open>["EN"]\<close> is a language field that is not a
  string, and it resolves to \<open>en\<close> and the \<open>en\<close> prompt, not to \<open>auto\<close>.
\<close>

theorem array_language_field_is_not_auto:
  "(\<forall>t. JArr [JStr ''EN''] \<noteq> JStr t)
   \<and> resolve_language (JArr [JStr ''EN'']) = ''en''
   \<and> resolve_prompt (resolve_language (JArr [JStr ''EN''])) = JStr en_prompt
   \<and> JStr en_prompt \<noteq> resolve_prompt ''auto''"
  by (simp add: resolve_language_def lower_ascii_examples resolve_prompt_table
      en_prompt_def auto_prompt_def)

subsection \<open>The page after an extraction\<close>

text \<open>
  Claim C6, amended. When an extract action completes successfully (a file is selected,
  the response is \<open>ok\<close> and its JSON is read), the transcription text is replaced by the
  response's text (empty when it has none) and the transform result is set to empty.
  When it completes with a failure, both are left as they were and only the error
  message is set.
\<close>

theorem successful_extract_clears_transform:
  assumes "selectedFile st = Some file"
  shows "extractedText (handleExtract st (FetchResponse True (Inr data))) =
           (case payload_text data of Some t \<Rightarrow> t | None \<Rightarrow> [])
       \<and> processedText (handleExtract st (FetchResponse True (Inr data))) = []
       \<and> error (handleExtract st (FetchResponse True (Inr data))) = []
       \<and> isLoading (handleExtract st (FetchResponse True (Inr data))) = False
       \<and> (extract_response r = Inl err \<longrightarrow>
            extractedText (handleExtract st r) = extractedText st
            \<and> processedText (handleExtract st r) = processedText st
            \<and> error (handleExtract st r) = message_of err ''Unexpected error during extraction.'')"
  using assms by (simp add: handleExtract_def extract_response_def Let_def)

theorem successful_extract_clears_transform_witness:
  "selectedFile example_page = Some ''note.jpg''
   \<and> processedText example_page = ''old summary''
   \<and> extract_response (FetchRejected (Error ''Failed to fetch'')) = Inl (Error ''Failed to fetch'')
   \<and> processedText (handleExtract example_page (FetchRejected (Error ''Failed to fetch'')))
       = ''old summary''
   \<and> extractedText (handleExtract example_page
        (FetchResponse True (Inr \<lparr>payload_text = Some ''new text'', payload_error = None\<rparr>)))
       = ''new text''
   \<and> processedText (handleExtract example_page
        (FetchResponse True (Inr \<lparr>payload_text = Some ''new text'', payload_error = None\<rparr>)))
       = []"
proof -
  have f: "selectedFile example_page = Some ''note.jpg''"
    by (simp add: example_page_def)
  have e: "extract_response (FetchRejected (Error ''Failed to fetch'')) = Inl (Error ''Failed to fetch'')"
    by (simp add: extract_response_def)
  from successful_extract_clears_transform [OF f,
      of "\<lparr>payload_text = Some ''new text'', payload_error = None\<rparr>"
         "FetchRejected (Error ''Failed to fetch'')" "Error ''Failed to fetch''"] f e
  show ?thesis by (simp add: example_page_def)
qed

text \<open>
  Claim C6 as stated fails: an extract action that completes with a failure response
  only sets the error message; the earlier transcription and the earlier transform
  result stay as they were.
\<close>

theorem failed_extract_keeps_transform:
  "selectedFile example_page = Some ''note.jpg''
   \<and> handleExtract example_page
        (FetchResponse False (Inr \<lparr>payload_text = None, payload_error = Some ''Gemini returned an empty response''\<rparr>))
       = example_page\<lparr>error := ''Gemini returned an empty response''\<rparr>
   \<and> processedText (handleExtract example_page
        (FetchResponse False (Inr \<lparr>payload_text = None, payload_error = Some ''Gemini returned an empty response''\<rparr>)))
       = ''old summary''
   \<and> extractedText (handleExtract example_page
        (FetchResponse False (Inr \<lparr>payload_text = None, payload_error = Some ''Gemini returned an empty response''\<rparr>)))
       = ''old text''"
  by (simp add: handleExtract_def extract_response_def error_or_def message_of_def example_page_def)

subsection \<open>The document export\<close>
















end
